theory Spec2Isabelle
  imports Main "HOL-Library.AList"
begin

section \<open>Enumerations of \<^verbatim>\<open>giterop/runtime.py\<close>\<close>

text \<open>
  \<^verbatim>\<open>Status = IntEnum("Status", "ok degraded error notapplied notpresent")\<close>,
  \<^verbatim>\<open>Priority = IntEnum("Priority", "ignore optional required")\<close> and
  \<^verbatim>\<open>Action = IntEnum("Action", "discover instantiate revert")\<close>.
  The members are written qualified (\<open>Status.error\<close>, \<open>Priority.required\<close>) as in the
  source. An \<^verbatim>\<open>IntEnum\<close> numbers its members from 1 in declaration order and
  compares them as integers.
\<close>

datatype Status = ok | degraded | error | notapplied | notpresent

datatype Priority = ignore | optional | required

datatype Action = discover | instantiate | revert

fun Status_value :: "Status \<Rightarrow> int" where
  "Status_value Status.ok = 1"
| "Status_value Status.degraded = 2"
| "Status_value Status.error = 3"
| "Status_value Status.notapplied = 4"
| "Status_value Status.notpresent = 5"

fun Priority_value :: "Priority \<Rightarrow> int" where
  "Priority_value Priority.ignore = 1"
| "Priority_value Priority.optional = 2"
| "Priority_value Priority.required = 3"

section \<open>The class \<^verbatim>\<open>Operational\<close>\<close>

text \<open>
  An operational object is given by the four core properties that the subclasses
  override: \<^verbatim>\<open>priority\<close> (\<^verbatim>\<open>OperationalInstance\<close> stores
  \<^verbatim>\<open>toEnum(Priority, priority)\<close>, which is \<^verbatim>\<open>None\<close> when no priority was
  given), \<^verbatim>\<open>computedStatus\<close>, \<^verbatim>\<open>manualOverideStatus\<close> and the list that
  \<^verbatim>\<open>getOperationalDependencies()\<close> produces, in its order.
\<close>

datatype Operational = Operational
  (priority: "Priority option")
  (computedStatus: Status)
  (manualOverideStatus: "Status option")
  (getOperationalDependencies: "Operational list")

text \<open>
  The derived properties \<^verbatim>\<open>status\<close> and \<^verbatim>\<open>operational\<close> and the static
  method \<^verbatim>\<open>aggregateStatus(statuses, defaultStatus)\<close>. The loop of
  \<^verbatim>\<open>aggregateStatus\<close> is the recursion over the list, \<open>state\<close> being the loop
  variable; \<^verbatim>\<open>break\<close> returns at once.
\<close>

definition required :: "Operational \<Rightarrow> bool" where
  "required x = (priority x = Some Priority.required)"

fun status :: "Operational \<Rightarrow> Status"
  and operational :: "Operational \<Rightarrow> bool"
  and aggregateStatus :: "Operational list \<Rightarrow> Status \<Rightarrow> Status" where
  "status (Operational p c m deps) =
     (let status = (case m of Some manual \<Rightarrow> manual | None \<Rightarrow> c) in
      if Status_value status \<ge> Status_value Status.error then status
      else aggregateStatus deps status)"
| "operational x = (status x = Status.ok \<or> status x = Status.degraded)"
| "aggregateStatus [] state = state"
| "aggregateStatus (d # statuses) state =
     (if priority d = Some Priority.ignore then aggregateStatus statuses state
      else if required d then
        (if \<not> operational d then Status.error
         else if status d = Status.degraded then aggregateStatus statuses Status.degraded
         else aggregateStatus statuses state)
      else if \<not> operational d then aggregateStatus statuses Status.degraded
      else aggregateStatus statuses state)"

section \<open>Exceptions, dictionaries and dynamically typed values\<close>

text \<open>
  A call that raises returns \<open>Inl\<close> of the exception. A \<^verbatim>\<open>dict\<close> is an association list
  with distinct keys in insertion order: \<^verbatim>\<open>d[k] = v\<close> is \<open>AList.update k v d\<close>,
  \<^verbatim>\<open>d.pop(k, None)\<close> is \<open>AList.delete k d\<close>, \<^verbatim>\<open>d.get(k)\<close> is \<open>map_of d k\<close>.
\<close>

datatype exn =
  AttributeError | NameError | AssertionError | ValueError | RuntimeError | GitErOpError

type_synonym ('k, 'v) dict = "('k \<times> 'v) list"

text \<open>
  The \<^verbatim>\<open>intent\<close> of a \<^verbatim>\<open>ConfigurationSpec\<close> is stored as the constructor receives
  it: a member of \<^verbatim>\<open>Action\<close> (the default \<^verbatim>\<open>Defaults.intent\<close>, and what
  \<^verbatim>\<open>copy(intent=A.revert)\<close> passes) or, if a caller passes one, a string. Python's
  \<^verbatim>\<open>==\<close> between an \<^verbatim>\<open>IntEnum\<close> member and a \<^verbatim>\<open>str\<close> is false, which is the
  equality of this type.
\<close>

datatype pyvalue = Enum Action | Text string

section \<open>\<^verbatim>\<open>ConfigurationSpec\<close> and \<^verbatim>\<open>Configuration\<close>\<close>

record ConfigurationSpec =
  name :: string
  target :: string
  className :: string
  majorVersion :: int
  minorVersion :: string
  intent :: pyvalue

text \<open>
  \<^verbatim>\<open>ConfigurationSpec.copy(**mods)\<close> with \<^verbatim>\<open>intent\<close> as the only modification: the
  constructor is called again and repeats its assertion (\<^verbatim>\<open>majorVersion is not None\<close>
  holds by the type).
\<close>

definition copy_intent :: "ConfigurationSpec \<Rightarrow> pyvalue \<Rightarrow> exn + ConfigurationSpec" where
  "copy_intent spec i =
     (if name spec \<noteq> [] \<and> target spec \<noteq> [] \<and> className spec \<noteq> []
      then Inr (spec\<lparr>intent := i\<rparr>) else Inl AssertionError)"

text \<open>
  A \<^verbatim>\<open>Configuration\<close> is an \<^verbatim>\<open>OperationalInstance\<close>: the primed fields are the
  attributes \<^verbatim>\<open>_computedStatus\<close>, \<^verbatim>\<open>_manualOverideStatus\<close> and \<^verbatim>\<open>_priority\<close>.
  \<^verbatim>\<open>resource\<close> is a reference to the owning resource. \<^verbatim>\<open>dependencies\<close> maps a name
  to a condition predicate; the model stores, in place of the predicate, the operational
  object it returns when \<^verbatim>\<open>getOperationalDependencies\<close> calls it.
  \<^verbatim>\<open>parameters\<close> is \<^verbatim>\<open>None\<close> until \<^verbatim>\<open>refreshParameters\<close> has run.
\<close>

type_synonym parameters = "(string, string) dict"

record Configuration =
  configurationSpec :: ConfigurationSpec
  resource :: nat
  computedStatus' :: Status
  manualOverideStatus' :: "Status option"
  priority' :: "Priority option"
  dependencies :: "(string, Operational) dict"
  parameters :: "parameters option"

text \<open>\<^verbatim>\<open>ConfigurationSpec.shouldRun\<close> returns \<^verbatim>\<open>Defaults.shouldRun\<close>,
  \<^verbatim>\<open>resolveParameters\<close> and \<^verbatim>\<open>getPostConditions\<close> return an empty dict.\<close>

definition shouldRun :: "ConfigurationSpec \<Rightarrow> Configuration \<Rightarrow> Priority" where
  "shouldRun spec configuration = Priority.optional"

definition resolveParameters :: "ConfigurationSpec \<Rightarrow> Configuration \<Rightarrow> parameters" where
  "resolveParameters spec configuration = []"

definition getPostConditions :: "ConfigurationSpec \<Rightarrow> (string, Operational) dict" where
  "getPostConditions spec = []"

definition Configuration_priority :: "Configuration \<Rightarrow> Priority" where
  "Configuration_priority c =
     (case priority' c of None \<Rightarrow> shouldRun (configurationSpec c) c | Some p \<Rightarrow> p)"

definition Configuration_getOperationalDependencies :: "Configuration \<Rightarrow> Operational list" where
  "Configuration_getOperationalDependencies c =
     map snd (dependencies c) @ map snd (getPostConditions (configurationSpec c))"

text \<open>The configuration seen through its base class \<^verbatim>\<open>Operational\<close>.\<close>

definition Configuration_Operational :: "Configuration \<Rightarrow> Operational" where
  "Configuration_Operational c =
     Operational (Some (Configuration_priority c)) (computedStatus' c) (manualOverideStatus' c)
       (Configuration_getOperationalDependencies c)"

definition Configuration_status :: "Configuration \<Rightarrow> Status" where
  "Configuration_status c = status (Configuration_Operational c)"

definition Configuration_name :: "Configuration \<Rightarrow> string" where
  "Configuration_name c = name (configurationSpec c)"

definition Configuration_intent :: "Configuration \<Rightarrow> pyvalue" where
  "Configuration_intent c = intent (configurationSpec c)"

definition hasParametersChanged :: "Configuration \<Rightarrow> bool" where
  "hasParametersChanged c =
     (case parameters c of None \<Rightarrow> False
      | Some ps \<Rightarrow> resolveParameters (configurationSpec c) c \<noteq> ps)"

section \<open>\<^verbatim>\<open>JobOptions\<close> and the selection of configurations\<close>

text \<open>
  The options that \<^verbatim>\<open>Job.__init__\<close> copies into the job. \<^verbatim>\<open>parentJob\<close> is a
  reference to a job or \<^verbatim>\<open>None\<close>; \<open>resource_option\<close> and \<open>configuration_option\<close> are
  the options \<^verbatim>\<open>resource\<close> and \<^verbatim>\<open>configuration\<close>; \<^verbatim>\<open>repair\<close> is a string or
  \<^verbatim>\<open>None\<close>. \<open>JobOptions_defaults\<close> is the class
  attribute \<^verbatim>\<open>defaults\<close>.
\<close>

record JobOptions =
  parentJob :: "nat option"
  resource_option :: "string option"
  configuration_option :: "string option"
  add :: bool
  update :: bool
  repair :: "string option"
  upgrade :: bool
  all :: bool
  verify :: bool
  readOnly :: bool
  dryRun :: bool
  requiredOnly :: bool
  revertObsolete :: bool

definition JobOptions_defaults :: JobOptions where
  "JobOptions_defaults =
     \<lparr> parentJob = None, resource_option = None, configuration_option = None, add = True, update = True,
       repair = Some ''error'', upgrade = False, all = False, verify = False,
       readOnly = False, dryRun = False, requiredOnly = False, revertObsolete = False \<rparr>"

text \<open>Truthiness of an optional string: \<^verbatim>\<open>None\<close> and the empty string are false.\<close>

definition truthy :: "string option \<Rightarrow> bool" where
  "truthy s = (case s of None \<Rightarrow> False | Some v \<Rightarrow> v \<noteq> [])"

text \<open>
  \<^verbatim>\<open>Job.checkForRepair(self, lastChange)\<close>. The assertion
  \<^verbatim>\<open>lastChange.status > S.ok\<close> is kept although the test before it makes it hold.
\<close>

definition checkForRepair :: "JobOptions \<Rightarrow> Configuration \<Rightarrow> exn + ConfigurationSpec option" where
  "checkForRepair self lastChange =
     (let spec = configurationSpec lastChange in
      if hasParametersChanged lastChange \<and> update self then Inr (Some spec)
      else if Configuration_status lastChange = Status.ok then Inr None
      else if \<not> truthy (repair self) then Inr None
      else if repair self = Some ''degraded'' then
        (if Status_value (Configuration_status lastChange) > Status_value Status.ok
         then Inr (Some spec) else Inl AssertionError)
      else if Configuration_status lastChange = Status.degraded then
        (if repair self = Some ''error'' then Inr None else Inl AssertionError)
      else
        (if repair self = Some ''error'' then Inr (Some spec) else Inl AssertionError))"

text \<open>
  \<^verbatim>\<open>Job.includeTask(self, config, lastChange)\<close>: \<open>config\<close> is the wanted specification
  or \<^verbatim>\<open>None\<close>, \<open>lastChange\<close> the configuration last applied or \<^verbatim>\<open>None\<close>. Both
  classes are truthy, so the tests on them are tests for \<^verbatim>\<open>None\<close>, which are the patterns;
  within an equation the tests come in the order of the source.
  \<^verbatim>\<open>spec != config\<close> is the negation of \<^verbatim>\<open>ConfigurationSpec.__eq__\<close>, which compares
  the six fields.
\<close>

fun includeTask ::
  "JobOptions \<Rightarrow> ConfigurationSpec option \<Rightarrow> Configuration option
    \<Rightarrow> exn + ConfigurationSpec option" where
  "includeTask self None None = Inl AssertionError"
| "includeTask self (Some config) None =
     (if all self then Inr (Some config)
      else if add self then Inr (Some config)
      else Inr None)"
| "includeTask self None (Some lastChange) =
     (let spec = configurationSpec lastChange in
      if revertObsolete self then
        (case copy_intent spec (Enum Action.revert) of
           Inl e \<Rightarrow> Inl e | Inr reverted \<Rightarrow> Inr (Some reverted))
      else if all self then Inr (Some spec)
      else checkForRepair self lastChange)"
| "includeTask self (Some config) (Some lastChange) =
     (if all self then Inr (Some config)
      else let spec = configurationSpec lastChange in
        if spec \<noteq> config then
          (if intent config = Enum Action.revert
               \<and> Configuration_status lastChange = Status.notpresent then Inr None
           else if upgrade self then Inr (Some config)
           else if Configuration_status lastChange = Status.notpresent
               \<and> intent spec \<noteq> intent config \<and> add self then Inr (Some config)
           else if update self \<and> intent config \<noteq> Enum Action.revert
               \<and> majorVersion spec \<noteq> majorVersion config then Inr (Some config)
           else checkForRepair self lastChange)
        else checkForRepair self lastChange)"

text \<open>
  \<^verbatim>\<open>Job.filterConfig(self, config)\<close>. \<^verbatim>\<open>config.intent != 'discover'\<close> compares the
  stored intent with a string. \<^verbatim>\<open>ConfigurationSpec\<close> has no attribute
  \<^verbatim>\<open>required\<close>, so the test under \<^verbatim>\<open>requiredOnly\<close> raises
  \<^verbatim>\<open>AttributeError\<close> when it is reached.
\<close>

definition filterConfig :: "JobOptions \<Rightarrow> ConfigurationSpec \<Rightarrow> exn + ConfigurationSpec option" where
  "filterConfig self config =
     (if readOnly self \<and> intent config \<noteq> Text ''discover'' then Inr None
      else if requiredOnly self then Inl AttributeError
      else if truthy (resource_option self) \<and> Some (target config) \<noteq> resource_option self
        then Inr None
      else if truthy (configuration_option self)
          \<and> Some (name config) \<noteq> configuration_option self then Inr None
      else Inr (Some config))"

section \<open>\<^verbatim>\<open>Resource\<close>, \<^verbatim>\<open>Task\<close>, \<^verbatim>\<open>Job\<close> and the object store\<close>

text \<open>
  Resources, configurations, tasks and jobs are mutable objects that the tasks, the jobs, the
  resources and the configurators share by reference, so they live in a store: a reference is
  a number, \<open>resourceOf\<close>, \<open>configurationOf\<close>, \<open>taskOf\<close> and \<open>jobOf\<close> give the object a
  reference stands for, and the counters are the next unused references. \<open>workDone\<close> is the
  ordered map \<^verbatim>\<open>Runner.workDone\<close> from a pair of a resource name and a configuration name
  to a task. \<open>rname\<close> is the attribute \<^verbatim>\<open>name\<close> of a resource, \<open>resources\<close> its list of
  children, \<open>container\<close> its parent. The values of \<^verbatim>\<open>attributes\<close> are taken as
  immutable.
\<close>

type_synonym attributes = "(string, string) dict"

record Resource =
  rname :: string
  attributes :: attributes
  configurations :: "(string, nat) dict"
  excludedConfigurations :: "(string, nat) dict"
  container :: "nat option"
  resources :: "nat list"

text \<open>
  The data of a \<^verbatim>\<open>Task\<close>. \<^verbatim>\<open>job\<close> and the three configurations are references;
  \<^verbatim>\<open>updateResources\<close> maps the name of a resource to the pair of the resource and the
  copy of its attributes made when the task first updated it; \<^verbatim>\<open>errors\<close> holds the
  messages of the \<^verbatim>\<open>GitErOpTaskError\<close>s recorded on the task. The configurator of a
  task is kept beside the task (see below).
\<close>

record Task =
  job :: nat
  oldConfiguration :: "nat option"
  currentConfiguration :: nat
  newConfiguration :: nat
  updateResources :: "(string, nat \<times> attributes) dict"
  messages :: "string list"
  addedResources :: "nat list"
  removedResources :: "nat list"
  errors :: "string list"

text \<open>
  A \<^verbatim>\<open>Job\<close>: its options, the wanted specifications, its root resource (a reference or
  \<^verbatim>\<open>None\<close>), the queue of its child jobs, and the computed status that it has as an
  \<^verbatim>\<open>OperationalInstance\<close>.
\<close>

record Job =
  options :: JobOptions
  wantedSpecs :: "ConfigurationSpec list"
  job_rootResource :: "nat option"
  jobQueue :: "nat list"
  job_computedStatus :: Status

record World =
  resourceOf :: "nat \<Rightarrow> Resource"
  nextResource :: nat
  configurationOf :: "nat \<Rightarrow> Configuration"
  nextConfiguration :: nat
  taskOf :: "nat \<Rightarrow> Task"
  nextTask :: nat
  jobOf :: "nat \<Rightarrow> Job"
  nextJob :: nat
  workDone :: "(string \<times> string, nat) dict"

text \<open>
  \<^verbatim>\<open>Resource.__init__(self, name, attributes, configurations, parent, children)\<close>.
  \<open>bound\<close> lists the attributes of \<^verbatim>\<open>self\<close> that are assigned when
  \<^verbatim>\<open>if parent: self.resources.append(self)\<close> runs; the class defines no attribute
  \<^verbatim>\<open>resources\<close>, so reading one that is not bound raises \<^verbatim>\<open>AttributeError\<close>. Had it
  been bound, the append would go to the list of \<^verbatim>\<open>self\<close>, which the last assignment
  replaces. A \<^verbatim>\<open>Resource\<close> object is truthy, so \<^verbatim>\<open>if parent\<close> tests for
  \<^verbatim>\<open>None\<close>.
\<close>

definition Resource_init ::
  "World \<Rightarrow> string \<Rightarrow> attributes option \<Rightarrow> nat list option \<Rightarrow> nat option \<Rightarrow> nat list option
    \<Rightarrow> exn + Resource" where
  "Resource_init w name' attributes' configurations' parent children =
     (let self = \<lparr> rname = name',
                   attributes = (case attributes' of None \<Rightarrow> [] | Some a \<Rightarrow> a),
                   configurations =
                     fold (\<lambda>c d. AList.update (Configuration_name (configurationOf w c)) c d)
                       (case configurations' of None \<Rightarrow> [] | Some cs \<Rightarrow> cs) [],
                   excludedConfigurations = [],
                   container = parent,
                   resources = [] \<rparr>;
          bound = [''name'', ''attributes'', ''configurations'', ''excludedConfigurations'',
                   ''container'']
      in if parent \<noteq> None \<and> ''resources'' \<notin> set bound then Inl AttributeError
         else Inr (self\<lparr>resources := (case children of None \<Rightarrow> [] | Some cs \<Rightarrow> cs)\<rparr>))"

text \<open>The call \<^verbatim>\<open>Resource(...)\<close>: the new object gets the next reference if
  \<^verbatim>\<open>__init__\<close> returns; if it raises, the store is as before.\<close>

definition Resource_new ::
  "World \<Rightarrow> string \<Rightarrow> attributes option \<Rightarrow> nat list option \<Rightarrow> nat option \<Rightarrow> nat list option
    \<Rightarrow> (exn + nat) \<times> World" where
  "Resource_new w name' attributes' configurations' parent children =
     (case Resource_init w name' attributes' configurations' parent children of
        Inl e \<Rightarrow> (Inl e, w)
      | Inr self \<Rightarrow>
          (Inr (nextResource w),
           w\<lparr>resourceOf := (resourceOf w)(nextResource w := self),
             nextResource := Suc (nextResource w)\<rparr>))"

text \<open>
  \<^verbatim>\<open>Resource.findResource(self, resourceid)\<close>. The loop over the children is
  \<open>findResource_children\<close>; a child whose name matches reaches \<^verbatim>\<open>return match\<close>, and
  \<^verbatim>\<open>match\<close> is bound nowhere (not in the function, the module, what
  \<^verbatim>\<open>from .util import *\<close> brings, or the builtins): \<^verbatim>\<open>NameError\<close>.
\<close>

fun findResource_children :: "World \<Rightarrow> nat list \<Rightarrow> string \<Rightarrow> exn + nat option" where
  "findResource_children w [] resourceid = Inr None"
| "findResource_children w (r # rs) resourceid =
     (if rname (resourceOf w r) = resourceid then Inl NameError
      else findResource_children w rs resourceid)"

definition findResource :: "World \<Rightarrow> nat \<Rightarrow> string \<Rightarrow> exn + nat option" where
  "findResource w self resourceid =
     (if rname (resourceOf w self) = resourceid then Inr (Some self)
      else findResource_children w (resources (resourceOf w self)) resourceid)"

text \<open>
  \<^verbatim>\<open>Configuration.__init__(self, spec, resource, status, dependencies)\<close> and the call
  that allocates the object. The constructor asserts
  \<^verbatim>\<open>resource and spec and resource.name == spec.target\<close>.
\<close>

definition Configuration_init ::
  "World \<Rightarrow> ConfigurationSpec \<Rightarrow> nat option \<Rightarrow> Status \<Rightarrow> exn + Configuration" where
  "Configuration_init w spec resource' status' =
     (case resource' of
        None \<Rightarrow> Inl AssertionError
      | Some r \<Rightarrow>
          if rname (resourceOf w r) = target spec
          then Inr \<lparr> configurationSpec = spec, resource = r, computedStatus' = status',
                     manualOverideStatus' = None, priority' = None, dependencies = [],
                     parameters = None \<rparr>
          else Inl AssertionError)"

definition Configuration_new ::
  "World \<Rightarrow> ConfigurationSpec \<Rightarrow> nat option \<Rightarrow> Status \<Rightarrow> (exn + nat) \<times> World" where
  "Configuration_new w spec resource' status' =
     (case Configuration_init w spec resource' status' of
        Inl e \<Rightarrow> (Inl e, w)
      | Inr c \<Rightarrow>
          (Inr (nextConfiguration w),
           w\<lparr>configurationOf := (configurationOf w)(nextConfiguration w := c),
             nextConfiguration := Suc (nextConfiguration w)\<rparr>))"

text \<open>
  \<^verbatim>\<open>Resource.setConfiguration(self, configuration)\<close>. \<open>withdrawn\<close> is its test: the
  configuration is \<open>notpresent\<close> and was meant to be reverted.
\<close>

definition withdrawn :: "World \<Rightarrow> nat \<Rightarrow> bool" where
  "withdrawn w configuration =
     (Configuration_status (configurationOf w configuration) = Status.notpresent
      \<and> Configuration_intent (configurationOf w configuration) = Enum Action.revert)"

definition setConfiguration :: "World \<Rightarrow> nat \<Rightarrow> nat \<Rightarrow> World" where
  "setConfiguration w self configuration =
     (let c = configurationOf w configuration; r = resourceOf w self;
          r' = (if withdrawn w configuration
                then r\<lparr>configurations := AList.delete (Configuration_name c) (configurations r),
                       excludedConfigurations :=
                         AList.update (Configuration_name c) configuration
                           (excludedConfigurations r)\<rparr>
                else r\<lparr>configurations :=
                         AList.update (Configuration_name c) configuration (configurations r)\<rparr>)
      in w\<lparr>resourceOf := (resourceOf w)(self := r')\<rparr>)"

text \<open>The assignment \<^verbatim>\<open>configuration.computedStatus = value\<close>.\<close>

definition set_computedStatus :: "World \<Rightarrow> nat \<Rightarrow> Status \<Rightarrow> World" where
  "set_computedStatus w configuration value =
     w\<lparr>configurationOf := (configurationOf w)(configuration :=
          (configurationOf w configuration)\<lparr>computedStatus' := value\<rparr>)\<rparr>"

section \<open>\<^verbatim>\<open>Manifest.createResource\<close>\<close>

text \<open>
  The manifest holds a reference to its root resource, or \<^verbatim>\<open>None\<close>. The loop
  \<^verbatim>\<open>for spec in configurationSpecs: resource.setConfiguration(Configuration(spec, resource))\<close>
  is \<open>createResource_specs\<close>.
\<close>

record Manifest =
  rootResource :: "nat option"
  specs :: "ConfigurationSpec list"

fun createResource_specs :: "World \<Rightarrow> nat \<Rightarrow> ConfigurationSpec list \<Rightarrow> exn option \<times> World" where
  "createResource_specs w resource' [] = (None, w)"
| "createResource_specs w resource' (spec # rest) =
     (case Configuration_new w spec (Some resource') Status.notapplied of
        (Inl e, w') \<Rightarrow> (Some e, w')
      | (Inr c, w') \<Rightarrow> createResource_specs (setConfiguration w' resource' c) resource' rest)"

definition createResource ::
  "Manifest \<Rightarrow> World \<Rightarrow> string option \<Rightarrow> attributes option \<Rightarrow> nat option
    \<Rightarrow> ConfigurationSpec list option \<Rightarrow> (exn + nat) \<times> World" where
  "createResource self w name' attributes' parent configurationSpecs =
     (case name' of
        None \<Rightarrow> (Inl AssertionError, w)
      | Some n \<Rightarrow>
        if n = [] then (Inl AssertionError, w)
        else (case rootResource self of
           None \<Rightarrow> (Inl AttributeError, w)
         | Some root \<Rightarrow>
            (case findResource w root n of
               Inl e \<Rightarrow> (Inl e, w)
             | Inr (Some found) \<Rightarrow> (Inl AssertionError, w)
             | Inr None \<Rightarrow>
                (case Resource_new w n attributes' None
                        (case parent of Some p \<Rightarrow> Some p | None \<Rightarrow> rootResource self) None of
                   (Inl e, w') \<Rightarrow> (Inl e, w')
                 | (Inr resource', w') \<Rightarrow>
                    (case createResource_specs w' resource'
                            (case configurationSpecs of None \<Rightarrow> [] | Some ss \<Rightarrow> ss) of
                       (Some e, w'') \<Rightarrow> (Inl e, w'')
                     | (None, w'') \<Rightarrow> (Inr resource', w''))))))"

section \<open>The methods of \<^verbatim>\<open>Task\<close> that record and revert changes\<close>

text \<open>
  \<^verbatim>\<open>GitErOpTaskError(task, message)\<close>: constructing the error appends it to
  \<^verbatim>\<open>task.errors\<close>.
\<close>

definition GitErOpTaskError :: "World \<Rightarrow> nat \<Rightarrow> string \<Rightarrow> World" where
  "GitErOpTaskError w task message =
     w\<lparr>taskOf := (taskOf w)(task := (taskOf w task)\<lparr>errors := errors (taskOf w task) @ [message]\<rparr>)\<rparr>"

text \<open>
  \<^verbatim>\<open>Task.updateResource(self, resource, updated, deleted)\<close>: the first update of a
  resource by this task saves a copy of its attributes under the name of the resource, then
  the keys in \<^verbatim>\<open>deleted\<close> are removed and \<^verbatim>\<open>updated\<close> is written over the attributes.
\<close>

definition updateResource :: "World \<Rightarrow> nat \<Rightarrow> nat \<Rightarrow> attributes \<Rightarrow> string list \<Rightarrow> World" where
  "updateResource w self resource' updated deleted =
     (let r = resourceOf w resource';
          t = taskOf w self;
          t' = (if map_of (updateResources t) (rname r) = None
                then t\<lparr>updateResources :=
                         AList.update (rname r) (resource', attributes r) (updateResources t)\<rparr>
                else t);
          attributes' =
            fold (\<lambda>(key, val). AList.update key val) updated
              (fold AList.delete deleted (attributes r))
      in w\<lparr>taskOf := (taskOf w)(self := t'),
           resourceOf := (resourceOf w)(resource' := r\<lparr>attributes := attributes'\<rparr>)\<rparr>)"

text \<open>
  \<^verbatim>\<open>Task.revertChanges(self)\<close>: \<open>revertChanges_loop\<close> is the loop over
  \<^verbatim>\<open>self.updateResources.values()\<close>, which assigns the saved attributes to each
  resource; then the map is emptied.
\<close>

fun revertChanges_loop :: "World \<Rightarrow> (nat \<times> attributes) list \<Rightarrow> World" where
  "revertChanges_loop w [] = w"
| "revertChanges_loop w ((resource', saved) # rest) =
     revertChanges_loop
       (w\<lparr>resourceOf := (resourceOf w)(resource' := (resourceOf w resource')\<lparr>attributes := saved\<rparr>)\<rparr>)
       rest"

definition revertChanges :: "World \<Rightarrow> nat \<Rightarrow> World" where
  "revertChanges w self =
     (let w' = revertChanges_loop w (map snd (updateResources (taskOf w self)))
      in w'\<lparr>taskOf := (taskOf w')(self := (taskOf w' self)\<lparr>updateResources := []\<rparr>)\<rparr>)"

text \<open>
  \<^verbatim>\<open>Task.finished(self, result)\<close>. \<open>reinstate\<close> is the block under
  \<^verbatim>\<open>if self.oldConfiguration\<close>: the assertion on the names, then the previous
  configuration becomes the current one of the task and of the resource, and the new one is
  filed under \<^verbatim>\<open>excludedConfigurations\<close>. The method returns
  \<^verbatim>\<open>self.newConfiguration\<close>.
\<close>

definition reinstate :: "World \<Rightarrow> nat \<Rightarrow> nat \<Rightarrow> nat \<Rightarrow> exn option \<times> World" where
  "reinstate w self resource' old =
     (let t = taskOf w self; new = newConfiguration t in
      if Configuration_name (configurationOf w old) \<noteq> Configuration_name (configurationOf w new)
      then (Some AssertionError, w)
      else
        let w1 = w\<lparr>taskOf := (taskOf w)(self := t\<lparr>currentConfiguration := old\<rparr>)\<rparr>;
            w2 = setConfiguration w1 resource' old;
            r = resourceOf w2 resource'
        in (None,
            w2\<lparr>resourceOf := (resourceOf w2)(resource' :=
                  r\<lparr>excludedConfigurations :=
                       AList.update (Configuration_name (configurationOf w2 new)) new
                         (excludedConfigurations r)\<rparr>)\<rparr>))"

definition finished :: "World \<Rightarrow> nat \<Rightarrow> Status \<Rightarrow> (exn + nat) \<times> World" where
  "finished w self result =
     (let current = currentConfiguration (taskOf w self);
          w1 = set_computedStatus w current result;
          resource' = resource (configurationOf w1 current);
          new = newConfiguration (taskOf w1 self)
      in if result = Status.notapplied then
           (case oldConfiguration (taskOf w1 self) of
              Some old \<Rightarrow>
                (case reinstate w1 self resource' old of
                   (Some e, w2) \<Rightarrow> (Inl e, w2)
                 | (None, w2) \<Rightarrow> (Inr new, revertChanges w2 self))
            | None \<Rightarrow> (Inr new, revertChanges w1 self))
         else if result = Status.notpresent
             \<and> Configuration_intent (configurationOf w1 current) = Enum Action.revert
           then (Inr new, setConfiguration w1 resource' new)
         else (Inr new, w1))"

text \<open>
  The attributes that \<^verbatim>\<open>revertChanges\<close> leaves on a resource: the copy saved in the last
  entry of \<^verbatim>\<open>updateResources\<close> that refers to it, if there is one.
\<close>

definition saved_attributes :: "Task \<Rightarrow> nat \<Rightarrow> attributes option" where
  "saved_attributes t resource' = map_of (rev (map snd (updateResources t))) resource'"

section \<open>Configurators and their generators\<close>

text \<open>
  \<^verbatim>\<open>Configurator.run(task)\<close> is a generator. \<^verbatim>\<open>generator.send(change)\<close> runs the
  code of the configurator on the store up to its next \<^verbatim>\<open>yield\<close>, or until it raises
  (returning from the generator raises \<^verbatim>\<open>StopIteration\<close>); \<open>send\<close> gives the outcome and
  the store it leaves, and a generator that has yielded continues as the generator in the
  outcome. What is yielded is a \<^verbatim>\<open>Task\<close> (a reference, with the configurator that
  \<^verbatim>\<open>Task.__init__\<close> created for it), a \<^verbatim>\<open>Job\<close> (a reference), a \<^verbatim>\<open>Status\<close>, or
  any other object. \<^verbatim>\<open>generator.close()\<close> raises \<^verbatim>\<open>GeneratorExit\<close> at the
  \<^verbatim>\<open>yield\<close> where the generator is suspended, which runs its clean-up code: the call
  returns normally if the generator then finishes, and it raises what the clean-up code
  raises, or \<^verbatim>\<open>RuntimeError\<close> if the generator yields again; \<open>close\<close> gives the
  exception, if there is one, and the store that the call leaves. On a generator that has
  not started or has finished, \<^verbatim>\<open>close()\<close> runs no code and returns. The value sent
  into a generator is \<^verbatim>\<open>None\<close>, or what \<^verbatim>\<open>runTask\<close> or \<^verbatim>\<open>Job.run\<close> returned: a
  status, a configuration or a resource.
\<close>

datatype change = NoChange | ReturnedStatus Status | ReturnedConfiguration nat | ReturnedResource nat

datatype yielded = YieldTask nat configurator | YieldJob nat | YieldStatus Status | YieldOther
  and outcome = Yield yielded generator | Raise
  and generator = Generator
    (send: "change \<Rightarrow> World \<Rightarrow> outcome \<times> World")
    (close: "World \<Rightarrow> exn option \<times> World")
  and configurator = Configurator
    (configurator_canRun: "nat \<Rightarrow> World \<Rightarrow> exn + bool")
    (configurator_shouldRun: "nat \<Rightarrow> World \<Rightarrow> exn + Priority")
    (configurator_run: "nat \<Rightarrow> generator")
    (configurator_dryRun: "nat \<Rightarrow> generator")

text \<open>
  The base class \<^verbatim>\<open>Configurator\<close>: \<^verbatim>\<open>canRun\<close> returns \<^verbatim>\<open>Defaults.canRun\<close>,
  \<^verbatim>\<open>shouldRun\<close> asks the specification, and \<^verbatim>\<open>run\<close> and \<^verbatim>\<open>dryRun\<close> are
  \<^verbatim>\<open>yield None\<close>: the generator yields \<^verbatim>\<open>None\<close> once and is finished when it is
  resumed.
\<close>

definition exhausted :: generator where
  "exhausted = Generator (\<lambda>change' w. (Raise, w)) (\<lambda>w. (None, w))"

definition yield_None :: generator where
  "yield_None = Generator (\<lambda>change' w. (Yield YieldOther exhausted, w)) (\<lambda>w. (None, w))"

definition base_Configurator :: configurator where
  "base_Configurator =
     Configurator (\<lambda>task w. Inr True)
       (\<lambda>task w.
          Inr (shouldRun (configurationSpec (configurationOf w (newConfiguration (taskOf w task))))
                 (configurationOf w (newConfiguration (taskOf w task)))))
       (\<lambda>task. yield_None) (\<lambda>task. yield_None)"

text \<open>
  \<^verbatim>\<open>Task.__init__(self, job, spec, currentConfiguration)\<close> and the call that allocates
  the task. \<^verbatim>\<open>Task.findResource\<close> asks the root resource of the manifest.
  \<^verbatim>\<open>spec.create()\<close> looks the class name up in the registry of configurator classes
  (\<^verbatim>\<open>lookupClass\<close> raises \<^verbatim>\<open>GitErOpError\<close> if it is not there) and calls the class
  on the specification; the registry is the argument \<open>classes\<close>. The new task is returned
  with its configurator.
\<close>

type_synonym registry = "string \<Rightarrow> (ConfigurationSpec \<Rightarrow> configurator) option"

definition Task_findResource :: "Manifest \<Rightarrow> World \<Rightarrow> string \<Rightarrow> exn + nat option" where
  "Task_findResource manifest w name' =
     (case rootResource manifest of
        None \<Rightarrow> Inl AttributeError
      | Some root \<Rightarrow> findResource w root name')"

definition Task_new ::
  "Manifest \<Rightarrow> registry \<Rightarrow> World \<Rightarrow> nat \<Rightarrow> ConfigurationSpec \<Rightarrow> nat option
    \<Rightarrow> (exn + nat \<times> configurator) \<times> World" where
  "Task_new manifest classes w job' spec currentConfiguration' =
     (let made =
        (case currentConfiguration' of
           Some current \<Rightarrow>
             (case Configuration_new w spec (Some (resource (configurationOf w current)))
                     (Configuration_status (configurationOf w current)) of
                (Inl e, w1) \<Rightarrow> (Inl e, w1)
              | (Inr new, w1) \<Rightarrow> (Inr (current, new), w1))
         | None \<Rightarrow>
             (case Task_findResource manifest w (target spec) of
                Inl e \<Rightarrow> (Inl e, w)
              | Inr found \<Rightarrow>
                  (case Configuration_new w spec found Status.notapplied of
                     (Inl e, w1) \<Rightarrow> (Inl e, w1)
                   | (Inr new, w1) \<Rightarrow> (Inr (new, new), w1))))
      in case made of
           (Inl e, w1) \<Rightarrow> (Inl e, w1)
         | (Inr (current, new), w1) \<Rightarrow>
             (case classes (className spec) of
                None \<Rightarrow> (Inl GitErOpError, w1)
              | Some klass \<Rightarrow>
                  (Inr (nextTask w1, klass spec),
                   w1\<lparr>taskOf := (taskOf w1)(nextTask w1 :=
                          \<lparr> job = job', oldConfiguration = currentConfiguration',
                            currentConfiguration = current, newConfiguration = new,
                            updateResources = [], messages = [], addedResources = [],
                            removedResources = [], errors = [] \<rparr>),
                       nextTask := Suc (nextTask w1)\<rparr>)))"

text \<open>\<^verbatim>\<open>Task.createSubTask(self, configSpec)\<close> is
  \<^verbatim>\<open>Task(self.job, configSpec, None)\<close>.\<close>

definition createSubTask ::
  "Manifest \<Rightarrow> registry \<Rightarrow> World \<Rightarrow> nat \<Rightarrow> ConfigurationSpec \<Rightarrow> (exn + nat \<times> configurator) \<times> World"
  where
  "createSubTask manifest classes w self configSpec =
     Task_new manifest classes w (job (taskOf w self)) configSpec None"

text \<open>\<^verbatim>\<open>ConfigurationSpec.validateParameters\<close> and \<^verbatim>\<open>ConfigurationSpec.canRun\<close> return
  \<^verbatim>\<open>True\<close>; \<^verbatim>\<open>Configuration.refreshParameters\<close> stores the resolved parameters.\<close>

definition validateParameters :: "ConfigurationSpec \<Rightarrow> parameters \<Rightarrow> bool" where
  "validateParameters spec ps = True"

definition ConfigurationSpec_canRun :: "ConfigurationSpec \<Rightarrow> Configuration \<Rightarrow> bool" where
  "ConfigurationSpec_canRun spec configuration = True"

definition refreshParameters :: "World \<Rightarrow> nat \<Rightarrow> World" where
  "refreshParameters w configuration =
     (let c = configurationOf w configuration in
      w\<lparr>configurationOf := (configurationOf w)(configuration :=
           c\<lparr>parameters := Some (resolveParameters (configurationSpec c) c)\<rparr>)\<rparr>)"

text \<open>\<^verbatim>\<open>Task.start(self)\<close>: the generator of \<^verbatim>\<open>dryRun\<close> or of \<^verbatim>\<open>run\<close>, by
  \<^verbatim>\<open>self.job.dryRun\<close>; the new configuration becomes the current one of the task and
  of its resource.\<close>

definition start :: "configurator \<Rightarrow> World \<Rightarrow> nat \<Rightarrow> generator \<times> World" where
  "start c w self =
     (let generator' = (if dryRun (options (jobOf w (job (taskOf w self))))
                        then configurator_dryRun c self else configurator_run c self);
          config = newConfiguration (taskOf w self);
          w1 = w\<lparr>taskOf := (taskOf w)(self := (taskOf w self)\<lparr>currentConfiguration := config\<rparr>)\<rparr>;
          w2 = setConfiguration w1 (resource (configurationOf w1 config)) config
      in (generator', refreshParameters w2 config))"

section \<open>The runner's record of work and \<^verbatim>\<open>Job.getCandidateTasks\<close>\<close>

text \<open>\<^verbatim>\<open>Runner.addWork(self, task)\<close> and
  \<^verbatim>\<open>Runner.isConfigAlreadyHandled(self, configSpec)\<close>.\<close>

definition addWork :: "World \<Rightarrow> nat \<Rightarrow> World" where
  "addWork w task =
     (let config = configurationOf w (currentConfiguration (taskOf w task)) in
      w\<lparr>workDone :=
           AList.update (rname (resourceOf w (resource config)), Configuration_name config) task
             (workDone w)\<rparr>)"

definition isConfigAlreadyHandled :: "World \<Rightarrow> ConfigurationSpec \<Rightarrow> bool" where
  "isConfigAlreadyHandled w configSpec =
     (map_of (workDone w) (target configSpec, name configSpec) \<noteq> None)"

text \<open>
  \<^verbatim>\<open>Job.getCandidateTasks\<close> is a generator that reads the store, and
  \<^verbatim>\<open>runner.workDone\<close> in it, each time \<^verbatim>\<open>Job.run\<close> resumes it. \<open>wanted_next\<close> runs
  the loop over \<^verbatim>\<open>self.findConfigurations(resource)\<close> from the specifications that are
  left up to the next \<^verbatim>\<open>yield\<close>: it returns the task yielded (\<open>Inr (Some task)\<close>), or that
  the loop is over (\<open>Inr None\<close>), or the exception raised, with the loop variable
  \<^verbatim>\<open>existing\<close>, the specifications left and the store. \<^verbatim>\<open>findConfigurations\<close> passes
  the wanted specifications whose target is the name of the resource.
\<close>

fun wanted_next ::
  "Manifest \<Rightarrow> registry \<Rightarrow> nat \<Rightarrow> nat \<Rightarrow> (string, nat) dict \<Rightarrow> ConfigurationSpec list \<Rightarrow> World
    \<Rightarrow> (exn + (nat \<times> configurator) option) \<times> ((string, nat) dict \<times> ConfigurationSpec list) \<times> World"
  where
  "wanted_next manifest classes self resource' existing [] w = (Inr None, (existing, []), w)"
| "wanted_next manifest classes self resource' existing (config # rest) w =
     (if target config \<noteq> rname (resourceOf w resource')
        then wanted_next manifest classes self resource' existing rest w
      else if isConfigAlreadyHandled w config
        then wanted_next manifest classes self resource' existing rest w
      else
        let lastChange = map_of existing (name config);
            existing' = AList.delete (name config) existing
        in case includeTask (options (jobOf w self)) (Some config)
                  (map_option (configurationOf w) lastChange) of
             Inl e \<Rightarrow> (Inl e, (existing', rest), w)
           | Inr None \<Rightarrow> wanted_next manifest classes self resource' existing' rest w
           | Inr (Some included) \<Rightarrow>
               (case filterConfig (options (jobOf w self)) included of
                  Inl e \<Rightarrow> (Inl e, (existing', rest), w)
                | Inr None \<Rightarrow> wanted_next manifest classes self resource' existing' rest w
                | Inr (Some kept) \<Rightarrow>
                    (case Task_new manifest classes w self included lastChange of
                       (Inl e, w1) \<Rightarrow> (Inl e, (existing', rest), w1)
                     | (Inr task, w1) \<Rightarrow> (Inr (Some task), (existing', rest), w1))))"

text \<open>
  \<open>orphans_next\<close> does the same for the loop over \<^verbatim>\<open>existing.values()\<close>, the
  configurations that no wanted specification claimed. \<^verbatim>\<open>includeTask(None, change)\<close>
  can return \<^verbatim>\<open>None\<close>, on which \<^verbatim>\<open>isConfigAlreadyHandled\<close> raises
  \<^verbatim>\<open>AttributeError\<close>; the task is yielded under \<^verbatim>\<open>not self.filterConfig(config)\<close>.
\<close>

fun orphans_next ::
  "Manifest \<Rightarrow> registry \<Rightarrow> nat \<Rightarrow> nat list \<Rightarrow> World
    \<Rightarrow> (exn + (nat \<times> configurator) option) \<times> nat list \<times> World" where
  "orphans_next manifest classes self [] w = (Inr None, [], w)"
| "orphans_next manifest classes self (change' # rest) w =
     (case includeTask (options (jobOf w self)) None (Some (configurationOf w change')) of
        Inl e \<Rightarrow> (Inl e, rest, w)
      | Inr None \<Rightarrow> (Inl AttributeError, rest, w)
      | Inr (Some config) \<Rightarrow>
          if isConfigAlreadyHandled w config then orphans_next manifest classes self rest w
          else
            (case filterConfig (options (jobOf w self)) config of
               Inl e \<Rightarrow> (Inl e, rest, w)
             | Inr (Some kept) \<Rightarrow> orphans_next manifest classes self rest w
             | Inr None \<Rightarrow>
                 (case Task_new manifest classes w self config (Some change') of
                    (Inl e, w1) \<Rightarrow> (Inl e, rest, w1)
                  | (Inr task, w1) \<Rightarrow> (Inr (Some task), rest, w1))))"

text \<open>
  The states in which the generator is suspended: not yet started, at a \<^verbatim>\<open>yield\<close> of
  the first or of the second loop for a resource, or finished. The outer loop is over
  \<^verbatim>\<open>self.rootResource.getSelfAndDescendents()\<close>, which yields the root resource and
  then, for each child, calls \<^verbatim>\<open>r.yieldDescendents()\<close>, a method that \<^verbatim>\<open>Resource\<close>
  does not have: when the root is done the generator ends if the root has no children and
  raises \<^verbatim>\<open>AttributeError\<close> if it has (\<open>after_root\<close>). A job without a root resource
  raises \<^verbatim>\<open>AttributeError\<close> at once.
\<close>

datatype candidates =
    NotStarted
  | InWanted nat "(string, nat) dict" "ConfigurationSpec list"
  | InOrphans nat "nat list"
  | Exhausted

definition after_root ::
  "World \<Rightarrow> nat \<Rightarrow> (exn + (nat \<times> configurator) option) \<times> candidates \<times> World" where
  "after_root w root =
     (if resources (resourceOf w root) = [] then (Inr None, Exhausted, w)
      else (Inl AttributeError, Exhausted, w))"

definition orphans_resume ::
  "Manifest \<Rightarrow> registry \<Rightarrow> nat \<Rightarrow> nat \<Rightarrow> nat list \<Rightarrow> World
    \<Rightarrow> (exn + (nat \<times> configurator) option) \<times> candidates \<times> World" where
  "orphans_resume manifest classes self resource' changes w =
     (case orphans_next manifest classes self changes w of
        (Inr (Some task), rest, w1) \<Rightarrow> (Inr (Some task), InOrphans resource' rest, w1)
      | (Inr None, rest, w1) \<Rightarrow> after_root w1 resource'
      | (Inl e, rest, w1) \<Rightarrow> (Inl e, Exhausted, w1))"

definition wanted_resume ::
  "Manifest \<Rightarrow> registry \<Rightarrow> nat \<Rightarrow> nat \<Rightarrow> (string, nat) dict \<Rightarrow> ConfigurationSpec list \<Rightarrow> World
    \<Rightarrow> (exn + (nat \<times> configurator) option) \<times> candidates \<times> World" where
  "wanted_resume manifest classes self resource' existing configs w =
     (case wanted_next manifest classes self resource' existing configs w of
        (Inr (Some task), (existing', rest), w1) \<Rightarrow>
          (Inr (Some task), InWanted resource' existing' rest, w1)
      | (Inr None, (existing', rest), w1) \<Rightarrow>
          if all (options (jobOf w1 self)) \<or> revertObsolete (options (jobOf w1 self))
          then orphans_resume manifest classes self resource' (map snd existing') w1
          else after_root w1 resource'
      | (Inl e, left, w1) \<Rightarrow> (Inl e, Exhausted, w1))"

text \<open>\<^verbatim>\<open>next()\<close> on the generator \<^verbatim>\<open>self.getCandidateTasks()\<close>.\<close>

fun getCandidateTasks_next ::
  "Manifest \<Rightarrow> registry \<Rightarrow> nat \<Rightarrow> candidates \<Rightarrow> World
    \<Rightarrow> (exn + (nat \<times> configurator) option) \<times> candidates \<times> World" where
  "getCandidateTasks_next manifest classes self NotStarted w =
     (case job_rootResource (jobOf w self) of
        None \<Rightarrow> (Inl AttributeError, Exhausted, w)
      | Some root \<Rightarrow>
          wanted_resume manifest classes self root (configurations (resourceOf w root))
            (wantedSpecs (jobOf w self)) w)"
| "getCandidateTasks_next manifest classes self (InWanted resource' existing configs) w =
     wanted_resume manifest classes self resource' existing configs w"
| "getCandidateTasks_next manifest classes self (InOrphans resource' changes) w =
     orphans_resume manifest classes self resource' changes w"
| "getCandidateTasks_next manifest classes self Exhausted w = (Inr None, Exhausted, w)"

section \<open>\<^verbatim>\<open>Job.runTask\<close> and \<^verbatim>\<open>Job.run\<close>\<close>

text \<open>
  A call on the store returns a value, \<open>Inr\<close>, or raises, \<open>Inl\<close>, and leaves a store; or it
  does not return at all, \<open>None\<close>. \<open>bind_run\<close> runs the rest of a computation on the value
  returned and the store left; an exception ends the computation.
\<close>

type_synonym 'a ran = "((exn + 'a) \<times> World) option"

definition return_run :: "'a \<Rightarrow> World \<Rightarrow> 'a ran" where
  "return_run v w = Some (Inr v, w)"

definition raise_run :: "exn \<Rightarrow> World \<Rightarrow> 'a ran" where
  "raise_run e w = Some (Inl e, w)"

definition bind_run :: "'a ran \<Rightarrow> ('a \<Rightarrow> World \<Rightarrow> 'b ran) \<Rightarrow> 'b ran" where
  "bind_run r f =
     (case r of None \<Rightarrow> None | Some (Inl e, w) \<Rightarrow> Some (Inl e, w) | Some (Inr v, w) \<Rightarrow> f v w)"

text \<open>
  \<^verbatim>\<open>Job.canRunTask(self, task)\<close>: an exception in the three tests is recorded on the
  task and counts as a refusal; on a refusal the new configuration is marked
  \<open>notapplied\<close> and, if it replaces an old one, filed under \<^verbatim>\<open>excludedConfigurations\<close>.
\<close>

definition canRunTask :: "configurator \<Rightarrow> World \<Rightarrow> nat \<Rightarrow> bool \<times> World" where
  "canRunTask c w task =
     (let new = configurationOf w (newConfiguration (taskOf w task));
          tested =
            (if validateParameters (configurationSpec new)
                  (resolveParameters (configurationSpec new) new)
                \<and> ConfigurationSpec_canRun (configurationSpec new) new
             then configurator_canRun c task w else Inr False);
          canRun = (case tested of Inl e \<Rightarrow> False | Inr b \<Rightarrow> b);
          w1 = (case tested of Inl e \<Rightarrow> GitErOpTaskError w task ''shouldRun failed'' | Inr b \<Rightarrow> w)
      in if canRun then (True, w1)
         else
           let config = newConfiguration (taskOf w1 task);
               w2 = set_computedStatus w1 config Status.notapplied;
               owner = resource (configurationOf w2 config);
               r = resourceOf w2 owner
           in (False,
               case oldConfiguration (taskOf w2 task) of
                 None \<Rightarrow> w2
               | Some old \<Rightarrow>
                   w2\<lparr>resourceOf := (resourceOf w2)(owner :=
                        r\<lparr>excludedConfigurations :=
                             AList.update (Configuration_name (configurationOf w2 config)) config
                               (excludedConfigurations r)\<rparr>)\<rparr>))"

text \<open>
  \<^verbatim>\<open>Job.shouldRunTask(self, task)\<close>: the priority that the configurator gives is stored
  on the new configuration, and the task runs if it is above \<open>ignore\<close>; an exception is
  recorded on the task and the task does not run.
\<close>

definition shouldRunTask :: "configurator \<Rightarrow> World \<Rightarrow> nat \<Rightarrow> bool \<times> World" where
  "shouldRunTask c w task =
     (case configurator_shouldRun c task w of
        Inl e \<Rightarrow> (False, GitErOpTaskError w task ''shouldRun failed'')
      | Inr priority'' \<Rightarrow>
          (Priority_value priority'' > Priority_value Priority.ignore,
           let new = newConfiguration (taskOf w task) in
           w\<lparr>configurationOf := (configurationOf w)(new :=
                (configurationOf w new)\<lparr>priority' := Some priority''\<rparr>)\<rparr>))"

text \<open>\<^verbatim>\<open>return task.finished(result)\<close> in \<^verbatim>\<open>runTask\<close>: the configuration returned,
  or the assertion error of \<^verbatim>\<open>finished\<close>.\<close>

definition return_finished :: "World \<Rightarrow> nat \<Rightarrow> Status \<Rightarrow> change ran" where
  "return_finished w task result =
     (case finished w task result of
        (Inl e, w') \<Rightarrow> raise_run e w'
      | (Inr c, w') \<Rightarrow> return_run (ReturnedConfiguration c) w')"

text \<open>
  A configurator can yield sub-tasks and jobs for ever, so \<^verbatim>\<open>runTask\<close> and
  \<^verbatim>\<open>Job.run\<close> need not return. They are defined by their bodies over a record \<open>fns\<close>
  of the functions that stand for the calls they make: of \<^verbatim>\<open>runTask\<close>, of the rounds
  that follow in its loop \<^verbatim>\<open>while True\<close>, of \<^verbatim>\<open>Job.run\<close>, of the rounds that follow
  in the loop of \<^verbatim>\<open>Job.run\<close> over the candidate tasks, and of the rounds that follow in
  its loop over the queue of child jobs.
\<close>

record runner_fns =
  runTask_at :: "nat \<Rightarrow> configurator \<Rightarrow> World \<Rightarrow> change ran"
  round_at :: "nat \<Rightarrow> generator \<Rightarrow> change \<Rightarrow> World \<Rightarrow> change ran"
  run_at :: "nat \<Rightarrow> World \<Rightarrow> change ran"
  candidates_at :: "nat \<Rightarrow> candidates \<Rightarrow> World \<Rightarrow> unit ran"
  queue_at :: "nat \<Rightarrow> World \<Rightarrow> unit ran"

text \<open>
  One round of the loop \<^verbatim>\<open>while True\<close> of \<^verbatim>\<open>runTask\<close>. A generator that has raised
  is finished, and closing it does nothing. In the last two branches
  \<^verbatim>\<open>generator.close()\<close> is called outside any \<^verbatim>\<open>try\<close>, so an exception that it
  raises leaves \<^verbatim>\<open>runTask\<close> before the task is finished.
\<close>

definition runTask_round ::
  "runner_fns \<Rightarrow> nat \<Rightarrow> generator \<Rightarrow> change \<Rightarrow> World \<Rightarrow> change ran" where
  "runTask_round fns task generator' change' w =
     (case send generator' change' w of
        (Raise, w1) \<Rightarrow>
          return_finished (GitErOpTaskError w1 task ''configurator.run failed'') task Status.error
      | (Yield (YieldTask subtask c) suspended, w1) \<Rightarrow>
          bind_run (runTask_at fns subtask c w1) (\<lambda>result w2. round_at fns task suspended result w2)
      | (Yield (YieldJob job') suspended, w1) \<Rightarrow>
          bind_run (run_at fns job' w1) (\<lambda>result w2. round_at fns task suspended result w2)
      | (Yield (YieldStatus result) suspended, w1) \<Rightarrow>
          (case close suspended w1 of
             (Some e, w2) \<Rightarrow> raise_run e w2
           | (None, w2) \<Rightarrow> return_finished w2 task result)
      | (Yield YieldOther suspended, w1) \<Rightarrow>
          (case close suspended w1 of
             (Some e, w2) \<Rightarrow> raise_run e w2
           | (None, w2) \<Rightarrow>
               return_finished
                 (GitErOpTaskError w2 task ''unexpected result from configurator'')
                 task Status.error))"

text \<open>\<^verbatim>\<open>Job.runTask(self, task)\<close> up to its loop.\<close>

definition runTask_body :: "runner_fns \<Rightarrow> nat \<Rightarrow> configurator \<Rightarrow> World \<Rightarrow> change ran" where
  "runTask_body fns task c w =
     (case canRunTask c w task of
        (False, w1) \<Rightarrow> return_run (ReturnedStatus Status.notapplied) w1
      | (True, w1) \<Rightarrow>
          (case start c w1 task of (generator', w2) \<Rightarrow> round_at fns task generator' NoChange w2))"

text \<open>
  \<^verbatim>\<open>Job.checkStatusAfterRun(self)\<close> aggregates, from \<open>ok\<close>, the operational
  dependencies of the configurations that \<^verbatim>\<open>rootResource.getAllConfigurationsDeep()\<close>
  produces: those of the root resource, then \<^verbatim>\<open>AttributeError\<close> if the root has
  children (as in \<^verbatim>\<open>getCandidateTasks\<close>). The aggregation draws the dependencies one by
  one and stops drawing at its \<^verbatim>\<open>break\<close>, which \<open>aggregate_breaks\<close> tells, so the
  exception is raised only if the loop runs to the end.
\<close>

fun aggregate_breaks :: "Operational list \<Rightarrow> bool" where
  "aggregate_breaks [] = False"
| "aggregate_breaks (d # statuses) =
     (if priority d = Some Priority.ignore then aggregate_breaks statuses
      else if required d then (if \<not> operational d then True else aggregate_breaks statuses)
      else aggregate_breaks statuses)"

definition checkStatusAfterRun :: "World \<Rightarrow> nat \<Rightarrow> exn + Status" where
  "checkStatusAfterRun w self =
     (case job_rootResource (jobOf w self) of
        None \<Rightarrow> Inl AttributeError
      | Some root \<Rightarrow>
          let r = resourceOf w root;
              dependencies' =
                concat (map (\<lambda>c. Configuration_getOperationalDependencies (configurationOf w c))
                          (map snd (configurations r) @ map snd (excludedConfigurations r)))
          in if aggregate_breaks dependencies' then Inr Status.error
             else if resources r \<noteq> [] then Inl AttributeError
             else Inr (aggregateStatus dependencies' Status.ok))"

text \<open>
  One round of the loop of \<^verbatim>\<open>Job.run\<close> over \<^verbatim>\<open>self.getCandidateTasks()\<close>, from the
  state in which the generator is suspended: the generator is resumed, and the task it yields
  is recorded with \<^verbatim>\<open>addWork\<close>. \<open>run_candidate\<close> is the body of the loop after that:
  the task is run if \<^verbatim>\<open>shouldRunTask\<close> says so, a job without parent then computes its
  status, and the next round follows. \<^verbatim>\<open>shouldAbort\<close> is always false.
\<close>

definition run_candidate ::
  "runner_fns \<Rightarrow> nat \<Rightarrow> candidates \<Rightarrow> nat \<Rightarrow> configurator \<Rightarrow> World \<Rightarrow> unit ran" where
  "run_candidate fns self suspended task c w =
     (case shouldRunTask c w task of
        (False, w1) \<Rightarrow> candidates_at fns self suspended w1
      | (True, w1) \<Rightarrow>
          bind_run (runTask_at fns task c w1)
            (\<lambda>result w2.
               if parentJob (options (jobOf w2 self)) = None then
                 (case checkStatusAfterRun w2 self of
                    Inl e \<Rightarrow> raise_run e w2
                  | Inr computed \<Rightarrow>
                      candidates_at fns self suspended
                        (w2\<lparr>jobOf := (jobOf w2)(self :=
                               (jobOf w2 self)\<lparr>job_computedStatus := computed\<rparr>)\<rparr>))
               else candidates_at fns self suspended w2))"

definition candidates_round ::
  "runner_fns \<Rightarrow> Manifest \<Rightarrow> registry \<Rightarrow> nat \<Rightarrow> candidates \<Rightarrow> World \<Rightarrow> unit ran" where
  "candidates_round fns manifest classes self suspended w =
     (case getCandidateTasks_next manifest classes self suspended w of
        (Inl e, suspended', w1) \<Rightarrow> raise_run e w1
      | (Inr None, suspended', w1) \<Rightarrow> return_run () w1
      | (Inr (Some (task, c)), suspended', w1) \<Rightarrow>
          run_candidate fns self suspended' task c (addWork w1 task))"

text \<open>
  \<^verbatim>\<open>Job.removeFromParentQueue(self)\<close> (\<^verbatim>\<open>list.remove\<close> raises \<^verbatim>\<open>ValueError\<close> if
  the job is not in the queue) and \<^verbatim>\<open>Job.addChildJob(self, resource, specs)\<close>, whose
  child has the default options but for \<^verbatim>\<open>parentJob\<close> and \<^verbatim>\<open>repair=None\<close>.
\<close>

definition removeFromParentQueue :: "World \<Rightarrow> nat \<Rightarrow> exn + World" where
  "removeFromParentQueue w self =
     (case parentJob (options (jobOf w self)) of
        None \<Rightarrow> Inr w
      | Some parent \<Rightarrow>
          if self \<in> set (jobQueue (jobOf w parent))
          then Inr (w\<lparr>jobOf := (jobOf w)(parent :=
                      (jobOf w parent)\<lparr>jobQueue := remove1 self (jobQueue (jobOf w parent))\<rparr>)\<rparr>)
          else Inl ValueError)"

definition addChildJob ::
  "World \<Rightarrow> nat \<Rightarrow> nat option \<Rightarrow> ConfigurationSpec list option \<Rightarrow> nat \<times> World" where
  "addChildJob w self resource' specs' =
     (let childJob = \<lparr> options = JobOptions_defaults\<lparr>parentJob := Some self, repair := None\<rparr>,
                       wantedSpecs = (case specs' of None \<Rightarrow> [] | Some ss \<Rightarrow> ss),
                       job_rootResource = resource', jobQueue = [],
                       job_computedStatus = Status.ok \<rparr>;
          w1 = w\<lparr>jobOf := (jobOf w)(nextJob w := childJob), nextJob := Suc (nextJob w)\<rparr>
      in (nextJob w,
          w1\<lparr>jobOf := (jobOf w1)(self :=
                (jobOf w1 self)\<lparr>jobQueue := jobQueue (jobOf w1 self) @ [nextJob w]\<rparr>)\<rparr>))"

text \<open>
  One round of the loop \<^verbatim>\<open>while self.jobQueue\<close> of \<^verbatim>\<open>Job.run\<close>, and
  \<^verbatim>\<open>Job.run(self)\<close> up to its loops; it returns \<^verbatim>\<open>self.rootResource\<close>.
\<close>

definition queue_round :: "runner_fns \<Rightarrow> nat \<Rightarrow> World \<Rightarrow> unit ran" where
  "queue_round fns self w =
     (case jobQueue (jobOf w self) of
        [] \<Rightarrow> return_run () w
      | job' # waiting \<Rightarrow> bind_run (run_at fns job' w) (\<lambda>result w1. queue_at fns self w1))"

definition returned_root :: "World \<Rightarrow> nat \<Rightarrow> change" where
  "returned_root w self =
     (case job_rootResource (jobOf w self) of None \<Rightarrow> NoChange | Some root \<Rightarrow> ReturnedResource root)"

definition run_body :: "runner_fns \<Rightarrow> nat \<Rightarrow> World \<Rightarrow> change ran" where
  "run_body fns self w =
     (case removeFromParentQueue w self of
        Inl e \<Rightarrow> raise_run e w
      | Inr w1 \<Rightarrow>
          bind_run (candidates_at fns self NotStarted w1)
            (\<lambda>done w2.
               if parentJob (options (jobOf w2 self)) = None then
                 (case addChildJob w2 self (job_rootResource (jobOf w2 self)) None of
                    (child, w3) \<Rightarrow>
                      bind_run (queue_at fns self w3)
                        (\<lambda>done' w4. return_run (returned_root w4 self) w4))
               else return_run (returned_root w2 self) w2))"

text \<open>
  The functions themselves, by the number of steps they may take: \<open>run_steps manifest
  classes n\<close> holds the functions that return when the calls and rounds that follow one
  another take no more than \<open>n\<close> steps in a row, and do not return, \<open>None\<close>, otherwise.
\<close>

primrec run_steps :: "Manifest \<Rightarrow> registry \<Rightarrow> nat \<Rightarrow> runner_fns" where
  "run_steps manifest classes 0 =
     \<lparr> runTask_at = (\<lambda>task c w. None), round_at = (\<lambda>task generator' change' w. None),
       run_at = (\<lambda>self w. None), candidates_at = (\<lambda>self suspended w. None),
       queue_at = (\<lambda>self w. None) \<rparr>"
| "run_steps manifest classes (Suc n) =
     \<lparr> runTask_at = runTask_body (run_steps manifest classes n),
       round_at = runTask_round (run_steps manifest classes n),
       run_at = run_body (run_steps manifest classes n),
       candidates_at = candidates_round (run_steps manifest classes n) manifest classes,
       queue_at = queue_round (run_steps manifest classes n) \<rparr>"

definition runTask :: "Manifest \<Rightarrow> registry \<Rightarrow> nat \<Rightarrow> nat \<Rightarrow> configurator \<Rightarrow> World \<Rightarrow> change ran"
  where
  "runTask manifest classes n = runTask_at (run_steps manifest classes n)"

definition runTask_loop ::
  "Manifest \<Rightarrow> registry \<Rightarrow> nat \<Rightarrow> nat \<Rightarrow> generator \<Rightarrow> change \<Rightarrow> World \<Rightarrow> change ran" where
  "runTask_loop manifest classes n = round_at (run_steps manifest classes n)"

definition Job_run :: "Manifest \<Rightarrow> registry \<Rightarrow> nat \<Rightarrow> nat \<Rightarrow> World \<Rightarrow> change ran" where
  "Job_run manifest classes n = run_at (run_steps manifest classes n)"

text \<open>
  \<^verbatim>\<open>Runner.createJob\<close> and \<^verbatim>\<open>Runner.run(self, joboptions)\<close>: the job is created on
  the root resource and the specifications of the manifest and run; an exception makes its
  status \<open>error\<close>. The job is returned (\<^verbatim>\<open>saveJob\<close> does nothing).
\<close>

definition createJob :: "Manifest \<Rightarrow> World \<Rightarrow> JobOptions \<Rightarrow> nat \<times> World" where
  "createJob manifest w joboptions =
     (nextJob w,
      w\<lparr>jobOf := (jobOf w)(nextJob w :=
             \<lparr> options = joboptions, wantedSpecs = specs manifest,
               job_rootResource = rootResource manifest, jobQueue = [],
               job_computedStatus = Status.ok \<rparr>),
        nextJob := Suc (nextJob w)\<rparr>)"

definition Runner_run ::
  "Manifest \<Rightarrow> registry \<Rightarrow> nat \<Rightarrow> World \<Rightarrow> JobOptions \<Rightarrow> (nat \<times> World) option" where
  "Runner_run manifest classes n w joboptions =
     (case createJob manifest w joboptions of
        (job', w1) \<Rightarrow>
          (case Job_run manifest classes n job' w1 of
             None \<Rightarrow> None
           | Some (Inr result, w2) \<Rightarrow> Some (job', w2)
           | Some (Inl e, w2) \<Rightarrow>
               Some (job', w2\<lparr>jobOf := (jobOf w2)(job' :=
                             (jobOf w2 job')\<lparr>job_computedStatus := Status.error\<rparr>)\<rparr>)))"

section \<open>The selection of tasks in \<^verbatim>\<open>unfurl/job.py\<close>\<close>

text \<open>
  The classes \<^verbatim>\<open>ConfigurationSpec\<close>, \<^verbatim>\<open>Plan\<close> and \<^verbatim>\<open>ConfigTask\<close> that
  \<^verbatim>\<open>unfurl/job.py\<close> imports are not among the sources. A specification is given by
  the attributes that \<^verbatim>\<open>job.py\<close> reads from it, a target by its name, and the plan by
  the list of triples of a specification, a target and a reason that
  \<^verbatim>\<open>self.plan.executePlan()\<close> produces; the task that
  \<^verbatim>\<open>self.createTask(configSpec, target, reason=reason)\<close> creates is represented by
  its three arguments, and its change id, when it is recorded, by a string.
\<close>

record unfurl_ConfigurationSpec =
  spec_name :: string
  spec_action :: string
  spec_intent :: pyvalue
  spec_required :: bool

record unfurl_JobOptions =
  opt_readonly :: bool
  opt_requiredOnly :: bool
  opt_resource :: "string option"
  opt_resources :: "string list option"

type_synonym unfurl_candidate = "unfurl_ConfigurationSpec \<times> string \<times> string"

text \<open>
  \<^verbatim>\<open>Runner.addWork\<close> records a task in \<^verbatim>\<open>workDone\<close> under the key
  \<^verbatim>\<open>"%s:%s:%s:%s" % (target.name, configSpec.name, configSpec.action, changeId)\<close>.
\<close>

definition unfurl_addWork ::
  "(string, unfurl_candidate) dict \<Rightarrow> unfurl_candidate \<Rightarrow> string \<Rightarrow> (string, unfurl_candidate) dict"
  where
  "unfurl_addWork workDone' task changeId =
     (case task of (configSpec, target', reason) \<Rightarrow>
        AList.update
          (target' @ '':'' @ spec_name configSpec @ '':'' @ spec_action configSpec @ '':'' @ changeId)
          task workDone')"

text \<open>\<^verbatim>\<open>Runner.isConfigAlreadyHandled(self, configSpec)\<close> is
  \<^verbatim>\<open>return False  # XXX\<close>, with the test of \<^verbatim>\<open>workDone\<close> commented out.\<close>

definition unfurl_isConfigAlreadyHandled ::
  "(string, unfurl_candidate) dict \<Rightarrow> unfurl_ConfigurationSpec \<Rightarrow> bool" where
  "unfurl_isConfigAlreadyHandled workDone' configSpec = False"

text \<open>\<^verbatim>\<open>Job.filterConfig(self, config, target)\<close> returns the specification or
  \<^verbatim>\<open>None\<close>, and the name of the filter that dropped it.\<close>

definition unfurl_filterConfig ::
  "unfurl_JobOptions \<Rightarrow> unfurl_ConfigurationSpec \<Rightarrow> string
    \<Rightarrow> unfurl_ConfigurationSpec option \<times> string option" where
  "unfurl_filterConfig opts config target' =
     (if opt_readonly opts \<and> spec_intent config \<noteq> Text ''discover'' then (None, Some ''read only'')
      else if opt_requiredOnly opts \<and> \<not> spec_required config then (None, Some ''required'')
      else if truthy (opt_resource opts) \<and> Some target' \<noteq> opt_resource opts
        then (None, Some ''resource'')
      else if (case opt_resources opts of None \<Rightarrow> False
               | Some names \<Rightarrow> names \<noteq> [] \<and> target' \<notin> set names)
        then (None, Some ''resources'')
      else (Some config, None))"

text \<open>
  \<^verbatim>\<open>Job.getCandidateTasks\<close>, from the candidates of the plan that are left up to the
  next \<^verbatim>\<open>yield\<close>: the task yielded, if any, and the candidates left.
\<close>

fun unfurl_getCandidateTasks_next ::
  "unfurl_JobOptions \<Rightarrow> (string, unfurl_candidate) dict \<Rightarrow> unfurl_candidate list
    \<Rightarrow> unfurl_candidate option \<times> unfurl_candidate list" where
  "unfurl_getCandidateTasks_next opts workDone' [] = (None, [])"
| "unfurl_getCandidateTasks_next opts workDone' ((configSpec, target', reason) # rest) =
     (case fst (unfurl_filterConfig opts configSpec target') of
        None \<Rightarrow> unfurl_getCandidateTasks_next opts workDone' rest
      | Some filtered \<Rightarrow>
          if unfurl_isConfigAlreadyHandled workDone' filtered
          then unfurl_getCandidateTasks_next opts workDone' rest
          else (Some (filtered, target', reason), rest))"

section \<open>Include directives of \<^verbatim>\<open>giterop/util.py\<close>\<close>

text \<open>
  A document is a tree of maps with string keys, lists and scalars; \<open>Null\<close> is
  \<^verbatim>\<open>None\<close>. A path is a tuple of map keys and list indices. An \<open>include_map\<close> is the map
  from a path to the list of include directives found there that \<^verbatim>\<open>expandDict\<close> and
  \<^verbatim>\<open>expandList\<close> fill as they go.
\<close>

datatype yaml = Str string | Num int | Null | Dict "(string \<times> yaml) list" | Seq "yaml list"

datatype segment = Key string | Index nat

type_synonym path = "segment list"

type_synonym include_map = "(path, (string \<times> yaml) list) dict"

definition mergeStrategyKey :: string where
  "mergeStrategyKey = ''+%''"

definition startswith :: "string \<Rightarrow> string \<Rightarrow> bool" where
  "startswith s prefix = (take (length prefix) s = prefix)"

text \<open>\<^verbatim>\<open>s.split(sep)\<close> for a separator of one character.\<close>

fun split :: "char \<Rightarrow> string \<Rightarrow> string list" where
  "split sep [] = [[]]"
| "split sep (c # cs) =
     (if c = sep then [] # split sep cs
      else (case split sep cs of [] \<Rightarrow> [[c]] | part # parts \<Rightarrow> (c # part) # parts))"

text \<open>Truthiness of a value: \<^verbatim>\<open>None\<close>, zero and the empty string, map and list are
  false.\<close>

fun yaml_truthy :: "yaml \<Rightarrow> bool" where
  "yaml_truthy Null = False"
| "yaml_truthy (Str s) = (s \<noteq> [])"
| "yaml_truthy (Num n) = (n \<noteq> 0)"
| "yaml_truthy (Dict d) = (d \<noteq> [])"
| "yaml_truthy (Seq xs) = (xs \<noteq> [])"

text \<open>\<^verbatim>\<open>includes.setdefault(path, []).append(entry)\<close>.\<close>

definition includes_append :: "include_map \<Rightarrow> path \<Rightarrow> string \<times> yaml \<Rightarrow> include_map" where
  "includes_append includes' p entry =
     AList.update p ((case map_of includes' p of None \<Rightarrow> [] | Some entries \<Rightarrow> entries) @ [entry])
       includes'"

text \<open>
  \<^verbatim>\<open>mergeDicts(b, a, cls)\<close>: \<open>mergeDicts_items\<close> is the loop over \<^verbatim>\<open>a.items()\<close>
  with the loop variables \<^verbatim>\<open>cp\<close> and \<^verbatim>\<open>skip\<close>, \<open>mergeDicts_base\<close> the loop over
  \<^verbatim>\<open>b.items()\<close>.
\<close>

fun mergeDicts_base ::
  "(string \<times> yaml) list \<Rightarrow> (string \<times> yaml) list \<Rightarrow> string list \<Rightarrow> (string \<times> yaml) list" where
  "mergeDicts_base [] cp skip = cp"
| "mergeDicts_base ((key, val) # rest) cp skip =
     (if key = mergeStrategyKey then mergeDicts_base rest cp skip
      else if map_of cp key = None \<and> key \<notin> set skip
        then mergeDicts_base rest (AList.update key val cp) skip
      else mergeDicts_base rest cp skip)"

fun mergeDicts :: "(string \<times> yaml) list \<Rightarrow> (string \<times> yaml) list \<Rightarrow> exn + (string \<times> yaml) list"
  and mergeDicts_items ::
    "(string \<times> yaml) list \<Rightarrow> (string \<times> yaml) list \<Rightarrow> (string \<times> yaml) list \<Rightarrow> string list
      \<Rightarrow> exn + (string \<times> yaml) list \<times> string list" where
  "mergeDicts b a =
     (case mergeDicts_items b a [] [] of
        Inl e \<Rightarrow> Inl e
      | Inr (cp, skip) \<Rightarrow> Inr (mergeDicts_base b cp skip))"
| "mergeDicts_items b [] cp skip = Inr (cp, skip)"
| "mergeDicts_items b ((key, Dict val) # rest) cp skip =
     (if key = mergeStrategyKey then mergeDicts_items b rest cp skip
      else
        let strategy = (case map_of val mergeStrategyKey of None \<Rightarrow> Null | Some s \<Rightarrow> s) in
        case map_of b key of
          Some (Dict bval) \<Rightarrow>
            (let strategy' =
               (if \<not> yaml_truthy strategy
                then (case map_of bval mergeStrategyKey of None \<Rightarrow> Str ''merge'' | Some s \<Rightarrow> s)
                else strategy) in
             if strategy' = Str ''merge'' then
               (case mergeDicts bval val of
                  Inl e \<Rightarrow> Inl e
                | Inr merged \<Rightarrow> mergeDicts_items b rest (AList.update key (Dict merged) cp) skip)
             else if strategy' = Str ''error'' then Inl GitErOpError
             else if strategy' = Str ''delete'' then mergeDicts_items b rest cp (skip @ [key])
             else mergeDicts_items b rest (AList.update key (Dict val) cp) skip)
        | _ \<Rightarrow>
            (if strategy = Str ''delete'' then mergeDicts_items b rest cp (skip @ [key])
             else mergeDicts_items b rest (AList.update key (Dict val) cp) skip))"
| "mergeDicts_items b ((key, val) # rest) cp skip =
     (if key = mergeStrategyKey then mergeDicts_items b rest cp skip
      else mergeDicts_items b rest (AList.update key val cp) skip)"
text \<open>\<^verbatim>\<open>lookupPath(doc, path, cls)\<close>; a list index is never a key of a map.\<close>

fun lookupPath :: "yaml \<Rightarrow> path \<Rightarrow> yaml" where
  "lookupPath template [] = template"
| "lookupPath (Dict d) (Key k # rest) =
     (case map_of d k of None \<Rightarrow> Null | Some v \<Rightarrow> lookupPath v rest)"
| "lookupPath template (seg # rest) = Null"

text \<open>
  The loop of \<^verbatim>\<open>getTemplate\<close> over \<^verbatim>\<open>key.split('/')\<close>, with the loop variables
  \<^verbatim>\<open>template\<close> and \<^verbatim>\<open>templatePath\<close>. \<^verbatim>\<open>path\<close> is a tuple, so after a
  segment \<^verbatim>\<open>'..'\<close> the call \<^verbatim>\<open>templatePath.append(segment)\<close> raises
  \<^verbatim>\<open>AttributeError\<close> if the segment is found at all.
\<close>

fun getTemplate_segments ::
  "yaml \<Rightarrow> path \<Rightarrow> path option \<Rightarrow> yaml \<Rightarrow> string list \<Rightarrow> exn + yaml \<times> path option" where
  "getTemplate_segments doc p templatePath template [] = Inr (template, templatePath)"
| "getTemplate_segments doc p templatePath template (segment # rest) =
     (let templatePath' =
            (if segment = ''..''
             then Some (butlast (case templatePath of None \<Rightarrow> p | Some tp \<Rightarrow> tp))
             else templatePath);
          template' =
            (if segment = ''..''
             then lookupPath doc (case templatePath' of None \<Rightarrow> [] | Some tp \<Rightarrow> tp)
             else template)
      in case template' of
           Dict d \<Rightarrow>
             (case map_of d segment of
                None \<Rightarrow> Inl GitErOpError
              | Some v \<Rightarrow>
                  if templatePath' \<noteq> None then Inl AttributeError
                  else getTemplate_segments doc p templatePath' v rest)
         | _ \<Rightarrow> Inl GitErOpError)"

text \<open>
  \<^verbatim>\<open>takewhile\<close> over \<^verbatim>\<open>zip(path, templatePath)\<close> keeps the pairs of equal
  components up to the first unequal one; \<^verbatim>\<open>len(prefix) == len(templatePath)\<close> tests
  that every component of the template path was kept.
\<close>

definition recursive_include :: "path \<Rightarrow> path \<Rightarrow> bool" where
  "recursive_include p templatePath =
     (length (takeWhile (\<lambda>x. fst x = snd x) (zip p templatePath)) = length templatePath)"

text \<open>The end of \<^verbatim>\<open>expandDict\<close>: the included templates and then \<^verbatim>\<open>cp\<close> are merged
  from left to right.\<close>

fun merge_templates :: "(string \<times> yaml) list \<Rightarrow> (string \<times> yaml) list list \<Rightarrow> exn + (string \<times> yaml) list"
  where
  "merge_templates accum [] = Inr accum"
| "merge_templates accum (t # templates) =
     (case mergeDicts accum t of Inl e \<Rightarrow> Inl e | Inr accum' \<Rightarrow> merge_templates accum' templates)"

definition merge_all :: "(string \<times> yaml) list \<Rightarrow> (string \<times> yaml) list list \<Rightarrow> exn + yaml" where
  "merge_all cp templates =
     (case templates of
        [] \<Rightarrow> Inr (Dict cp)
      | accum # rest \<Rightarrow>
          (case merge_templates accum (rest @ [cp]) of
             Inl e \<Rightarrow> Inl e | Inr merged \<Rightarrow> Inr (Dict merged)))"

text \<open>
  \<^verbatim>\<open>getTemplate\<close>, \<^verbatim>\<open>expandDict\<close> and \<^verbatim>\<open>expandList\<close> call each other, and an
  include can lead back to the map that holds it, so the recursion need not end. A call
  returns \<open>Some (Inr v)\<close>, raises, \<open>Some (Inl e)\<close>, or does not return, \<open>None\<close>;
  \<open>and_then\<close> runs the rest of a computation on the value returned.
\<close>

type_synonym 'a result = "(exn + 'a) option"

definition and_then :: "'a result \<Rightarrow> ('a \<Rightarrow> 'b result) \<Rightarrow> 'b result" where
  "and_then r f = (case r of None \<Rightarrow> None | Some (Inl e) \<Rightarrow> Some (Inl e) | Some (Inr v) \<Rightarrow> f v)"

definition returns :: "'a \<Rightarrow> 'a result" where
  "returns v = Some (Inr v)"

definition raises :: "exn \<Rightarrow> 'a result" where
  "raises e = Some (Inl e)"

text \<open>What an included template or an expanded map adds to the list that
  \<^verbatim>\<open>expandList\<close> yields: its items if it is a list, itself otherwise.\<close>

definition yield_each :: "yaml \<Rightarrow> yaml list" where
  "yield_each template = (case template of Seq items \<Rightarrow> items | _ \<Rightarrow> [template])"

text \<open>
  The bodies of the three functions, over the functions \<open>getTemplate'\<close> and \<open>expandDict'\<close>
  that stand for their calls of \<^verbatim>\<open>getTemplate\<close> and \<^verbatim>\<open>expandDict\<close> (on the same
  \<^verbatim>\<open>doc\<close> and \<^verbatim>\<open>cls\<close>). \<open>expandList_item\<close> is one round of the loop of the
  generator \<^verbatim>\<open>expandList\<close>, at index \<open>i\<close>, and \<open>expandList_items\<close> the loop from index
  \<open>i\<close> on; both return the list of what is yielded. \<open>expandDict_items\<close> is the loop of
  \<^verbatim>\<open>expandDict\<close> over \<^verbatim>\<open>current.items()\<close> with the loop variables \<^verbatim>\<open>cp\<close>
  and \<^verbatim>\<open>templates\<close>; it returns \<open>Inl\<close> of the value when the loop leaves the function
  by \<^verbatim>\<open>return template\<close>.
\<close>

type_synonym getTemplate_fn = "string \<Rightarrow> yaml \<Rightarrow> path \<Rightarrow> yaml result"

type_synonym expandDict_fn =
  "path \<Rightarrow> include_map \<Rightarrow> (string \<times> yaml) list \<Rightarrow> (yaml \<times> include_map) result"

definition expandList_item ::
  "getTemplate_fn \<Rightarrow> expandDict_fn \<Rightarrow> path \<Rightarrow> nat \<Rightarrow> yaml \<Rightarrow> include_map
    \<Rightarrow> (yaml list \<times> include_map) result" where
  "expandList_item getTemplate' expandDict' p i item inc =
     (case item of
        Str s \<Rightarrow>
          if startswith s ''+'' then
            and_then (getTemplate' (drop 1 s) Null p)
              (\<lambda>template.
                 returns (yield_each template, includes_append inc (p @ [Index i]) (s, Null)))
          else if startswith s ''q+'' then returns ([Str (drop 1 s)], inc)
          else returns ([item], inc)
      | Dict d \<Rightarrow>
          and_then (expandDict' (p @ [Index i]) inc d)
            (\<lambda>(newitem, inc1). returns (yield_each newitem, inc1))
      | _ \<Rightarrow> returns ([item], inc))"

fun expandList_items ::
  "getTemplate_fn \<Rightarrow> expandDict_fn \<Rightarrow> path \<Rightarrow> nat \<Rightarrow> yaml list \<Rightarrow> include_map
    \<Rightarrow> (yaml list \<times> include_map) result" where
  "expandList_items getTemplate' expandDict' p i [] inc = returns ([], inc)"
| "expandList_items getTemplate' expandDict' p i (item # rest) inc =
     and_then (expandList_item getTemplate' expandDict' p i item inc)
       (\<lambda>(yielded, inc1).
          and_then (expandList_items getTemplate' expandDict' p (Suc i) rest inc1)
            (\<lambda>(more, inc2). returns (yielded @ more, inc2)))"

definition expandList ::
  "getTemplate_fn \<Rightarrow> expandDict_fn \<Rightarrow> path \<Rightarrow> include_map \<Rightarrow> yaml list
    \<Rightarrow> (yaml list \<times> include_map) result" where
  "expandList getTemplate' expandDict' p inc value =
     expandList_items getTemplate' expandDict' p 0 value inc"

fun expandDict_items ::
  "getTemplate_fn \<Rightarrow> expandDict_fn \<Rightarrow> path \<Rightarrow> nat \<Rightarrow> (string \<times> yaml) list
    \<Rightarrow> (string \<times> yaml) list \<Rightarrow> (string \<times> yaml) list list \<Rightarrow> include_map
    \<Rightarrow> ((yaml + (string \<times> yaml) list \<times> (string \<times> yaml) list list) \<times> include_map) result" where
  "expandDict_items getTemplate' expandDict' p len [] cp templates inc =
     returns (Inr (cp, templates), inc)"
| "expandDict_items getTemplate' expandDict' p len ((key, value) # rest) cp templates inc =
     (if startswith key ''+'' then
        (if key = mergeStrategyKey
         then expandDict_items getTemplate' expandDict' p len rest (AList.update key value cp)
                templates inc
         else and_then (getTemplate' (drop 1 key) value p)
           (\<lambda>template.
              case template of
                Dict t \<Rightarrow>
                  expandDict_items getTemplate' expandDict' p len rest cp (templates @ [t])
                    (includes_append inc p (key, value))
              | _ \<Rightarrow>
                  if len > 1 then raises GitErOpError
                  else returns (Inl template, includes_append inc p (key, value))))
      else if startswith key ''q+'' then
        expandDict_items getTemplate' expandDict' p len rest (AList.update (drop 2 key) value cp)
          templates inc
      else
        (case value of
           Dict d \<Rightarrow>
             and_then (expandDict' (p @ [Key key]) inc d)
               (\<lambda>(expanded, inc1).
                  expandDict_items getTemplate' expandDict' p len rest
                    (AList.update key expanded cp) templates inc1)
         | Seq items \<Rightarrow>
             and_then (expandList getTemplate' expandDict' (p @ [Key key]) inc items)
               (\<lambda>(expanded, inc1).
                  expandDict_items getTemplate' expandDict' p len rest
                    (AList.update key (Seq expanded) cp) templates inc1)
         | _ \<Rightarrow>
             expandDict_items getTemplate' expandDict' p len rest (AList.update key value cp)
               templates inc))"

definition expandDict_body :: "getTemplate_fn \<Rightarrow> expandDict_fn \<Rightarrow> expandDict_fn" where
  "expandDict_body getTemplate' expandDict' p inc current =
     and_then
       (expandDict_items getTemplate' expandDict' p (length current) current [] [] inc)
       (\<lambda>(left, inc1).
          case left of
            Inl template \<Rightarrow> returns (template, inc1)
          | Inr (cp, templates) \<Rightarrow>
              (case merge_all cp templates of
                 Inl e \<Rightarrow> raises e
               | Inr merged \<Rightarrow> returns (merged, inc1)))"

definition getTemplate_body :: "yaml \<Rightarrow> expandDict_fn \<Rightarrow> getTemplate_fn" where
  "getTemplate_body doc expandDict' key value p =
     (case getTemplate_segments doc p None doc (split CHR ''/'' key) of
        Inl e \<Rightarrow> raises e
      | Inr (Dict d, templatePath) \<Rightarrow>
          if value \<noteq> Str ''raw'' then
            (if recursive_include p
                  (case templatePath of None \<Rightarrow> map Key (split CHR ''/'' key) | Some tp \<Rightarrow> tp)
             then raises GitErOpError
             else and_then (expandDict' p [] d) (\<lambda>(template, inc1). returns template))
          else returns (Dict d)
      | Inr (template, templatePath) \<Rightarrow> returns template)"

text \<open>
  The functions themselves, by depth of nesting: \<open>expand n doc\<close> is the pair of
  \<^verbatim>\<open>getTemplate\<close> and \<^verbatim>\<open>expandDict\<close> on \<^verbatim>\<open>doc\<close> that return when their calls
  of each other nest no deeper than \<open>n\<close>, and do not return, \<open>None\<close>, otherwise.
\<close>

primrec expand :: "nat \<Rightarrow> yaml \<Rightarrow> getTemplate_fn \<times> expandDict_fn" where
  "expand 0 doc = (\<lambda>key value p. None, \<lambda>p inc current. None)"
| "expand (Suc n) doc =
     (getTemplate_body doc (snd (expand n doc)),
      expandDict_body (fst (expand n doc)) (snd (expand n doc)))"

definition getTemplate :: "nat \<Rightarrow> yaml \<Rightarrow> getTemplate_fn" where
  "getTemplate n doc = fst (expand n doc)"

definition expandDict :: "nat \<Rightarrow> yaml \<Rightarrow> expandDict_fn" where
  "expandDict n doc = snd (expand n doc)"

text \<open>\<^verbatim>\<open>expandDoc(doc)\<close> with \<^verbatim>\<open>current\<close> left out.\<close>

definition expandDoc :: "nat \<Rightarrow> yaml \<Rightarrow> (yaml \<times> include_map) result" where
  "expandDoc n doc =
     (case doc of Dict d \<Rightarrow> expandDict n doc [] [] d | _ \<Rightarrow> raises GitErOpError)"

section \<open>Example objects\<close>

text \<open>
  A wanted specification and the configuration last applied for it: the stored
  specification differs in the minor version only. A job with the default options that
  wants the specification twice.
\<close>

definition web_spec :: ConfigurationSpec where
  "web_spec = \<lparr> name = ''web'', target = ''root'', className = ''K'', majorVersion = 1,
                minorVersion = ''2'', intent = Enum Action.instantiate \<rparr>"

definition web_lastChange :: Configuration where
  "web_lastChange =
     \<lparr> configurationSpec = web_spec\<lparr>minorVersion := ''1''\<rparr>, resource = 0,
       computedStatus' = Status.ok, manualOverideStatus' = None, priority' = None,
       dependencies = [], parameters = Some [] \<rparr>"

definition site_job :: Job where
  "site_job = \<lparr> options = JobOptions_defaults, wantedSpecs = [web_spec, web_spec],
                job_rootResource = Some 0, jobQueue = [], job_computedStatus = Status.ok \<rparr>"

text \<open>A store with a root resource (reference 0), its child (1) and a grandchild (2).\<close>

definition family :: World where
  "family =
     \<lparr> resourceOf =
         (\<lambda>r. \<lparr> rname = ''root'', attributes = [], configurations = [],
                 excludedConfigurations = [], container = None, resources = [1] \<rparr>)
         (1 := \<lparr> rname = ''child'', attributes = [], configurations = [],
                  excludedConfigurations = [], container = Some 0, resources = [2] \<rparr>,
          2 := \<lparr> rname = ''grandchild'', attributes = [], configurations = [],
                  excludedConfigurations = [], container = Some 1, resources = [] \<rparr>),
       nextResource = 3,
       configurationOf = (\<lambda>c. web_lastChange),
       nextConfiguration = 0,
       taskOf =
         (\<lambda>t. \<lparr> job = 0, oldConfiguration = None, currentConfiguration = 0,
                 newConfiguration = 0, updateResources = [], messages = [],
                 addedResources = [], removedResources = [], errors = [] \<rparr>),
       nextTask = 0,
       jobOf = (\<lambda>j. site_job),
       nextJob = 1,
       workDone = [] \<rparr>"

text \<open>
  A store with one resource \<open>root\<close> (reference 0) that has the attribute \<open>x\<close>, and two
  tasks. The parent task (reference 0) replaces the configuration \<open>web\<close> last applied
  (configuration 0) by a new one (configuration 1) and has been started; the sub-task
  (reference 1) applies a configuration \<open>db\<close> (configuration 2). The parent writes the
  attribute \<open>a\<close>, the sub-task then writes \<open>b\<close> and finishes with \<open>ok\<close>, and the parent
  finishes with \<open>notapplied\<close>.
\<close>

definition deployment :: World where
  "deployment =
     \<lparr> resourceOf =
         (\<lambda>r. \<lparr> rname = ''root'', attributes = [(''x'', ''0'')],
                 configurations = [(''web'', 1), (''db'', 2)],
                 excludedConfigurations = [], container = None, resources = [] \<rparr>),
       nextResource = 1,
       configurationOf =
         (\<lambda>c. web_lastChange)
         (1 := \<lparr> configurationSpec = web_spec, resource = 0, computedStatus' = Status.ok,
                  manualOverideStatus' = None, priority' = None, dependencies = [],
                  parameters = Some [] \<rparr>,
          2 := \<lparr> configurationSpec = web_spec\<lparr>name := ''db''\<rparr>, resource = 0,
                  computedStatus' = Status.notapplied, manualOverideStatus' = None,
                  priority' = None, dependencies = [], parameters = Some [] \<rparr>),
       nextConfiguration = 3,
       taskOf =
         (\<lambda>t. \<lparr> job = 0, oldConfiguration = Some 0, currentConfiguration = 1,
                 newConfiguration = 1, updateResources = [], messages = [],
                 addedResources = [], removedResources = [], errors = [] \<rparr>)
         (1 := \<lparr> job = 0, oldConfiguration = None, currentConfiguration = 2,
                  newConfiguration = 2, updateResources = [], messages = [],
                  addedResources = [], removedResources = [], errors = [] \<rparr>),
       nextTask = 2,
       jobOf = (\<lambda>j. site_job),
       nextJob = 1,
       workDone = [((''root'', ''web''), 0)] \<rparr>"

definition parent_updates :: World where
  "parent_updates = updateResource deployment 0 0 [(''a'', ''1'')] []"

definition subtask_updates :: World where
  "subtask_updates = updateResource parent_updates 1 0 [(''b'', ''2'')] []"

definition subtask_finished :: World where
  "subtask_finished = snd (finished subtask_updates 1 Status.ok)"

definition parent_finished :: World where
  "parent_finished = snd (finished subtask_finished 0 Status.notapplied)"

text \<open>
  A store with a root resource without children or configurations and the job \<open>site_job\<close>
  (reference 0), a manifest on it, and a registry that knows every class as the base
  configurator. \<open>first_candidate\<close> is the store when the planner of the job has yielded its
  first task. \<open>rerun_all\<close> is the store \<open>deployment\<close> with a job that has the option
  \<^verbatim>\<open>all\<close>. For \<^verbatim>\<open>unfurl\<close>, a candidate of the plan.
\<close>

definition site :: World where
  "site = deployment
     \<lparr> resourceOf :=
         (\<lambda>r. \<lparr> rname = ''root'', attributes = [], configurations = [],
                 excludedConfigurations = [], container = None, resources = [] \<rparr>),
       nextConfiguration := 0, nextTask := 0, workDone := [] \<rparr>"

definition site_manifest :: Manifest where
  "site_manifest = \<lparr> rootResource = Some 0, specs = [web_spec, web_spec] \<rparr>"

definition any_class :: registry where
  "any_class = (\<lambda>className'. Some (\<lambda>spec. base_Configurator))"

definition first_candidate :: World where
  "first_candidate = snd (snd (getCandidateTasks_next site_manifest any_class 0 NotStarted site))"

definition rerun_all :: World where
  "rerun_all = deployment\<lparr>jobOf := (\<lambda>j. site_job\<lparr>options := JobOptions_defaults\<lparr>all := True\<rparr>\<rparr>)\<rparr>"

definition unfurl_web :: unfurl_candidate where
  "unfurl_web =
     (\<lparr> spec_name = ''web'', spec_action = ''configure'', spec_intent = Enum Action.instantiate,
        spec_required = False \<rparr>, ''root'', ''add'')"

definition unfurl_defaults :: unfurl_JobOptions where
  "unfurl_defaults = \<lparr> opt_readonly = False, opt_requiredOnly = False, opt_resource = None,
                       opt_resources = None \<rparr>"

text \<open>
  A configurator whose \<^verbatim>\<open>run\<close> is \<^verbatim>\<open>try: yield None\<close> \<^verbatim>\<open>finally: raise ValueError()\<close>,
  and is otherwise the base class. \<open>failing_cleanup\<close> is its generator suspended at the
  \<^verbatim>\<open>yield\<close>: resumed or closed, it runs the \<^verbatim>\<open>finally\<close> block, which raises.
\<close>

definition failing_cleanup :: generator where
  "failing_cleanup = Generator (\<lambda>change' w. (Raise, w)) (\<lambda>w. (Some ValueError, w))"

definition yield_None_failing_cleanup :: generator where
  "yield_None_failing_cleanup =
     Generator (\<lambda>change' w. (Yield YieldOther failing_cleanup, w)) (\<lambda>w. (None, w))"

definition failing_cleanup_Configurator :: configurator where
  "failing_cleanup_Configurator =
     Configurator (configurator_canRun base_Configurator)
       (configurator_shouldRun base_Configurator)
       (\<lambda>task. yield_None_failing_cleanup) (\<lambda>task. yield_None_failing_cleanup)"

declare operational.simps [simp del]

section \<open>Verified properties\<close>

subsection \<open>Status aggregation\<close>

lemma required_not_ignore: "required d \<Longrightarrow> priority d \<noteq> Some Priority.ignore"
  by (simp add: required_def)

text \<open>
  Claim C1. For every list of dependencies and every default status,
  \<^verbatim>\<open>aggregateStatus\<close> returns \<open>error\<close> if the scan, which skips the dependencies of
  priority \<open>ignore\<close>, meets a required dependency that is not operational; otherwise
  \<open>degraded\<close> if some dependency that is not ignored is required and degraded, or not required
  and not operational; otherwise the default status. Nothing but a failing required dependency
  stops the scan, so it meets one exactly when the list holds one.
\<close>

theorem aggregateStatus_rule:
  "aggregateStatus deps defaultStatus =
   (if \<exists>d\<in>set deps. priority d \<noteq> Some Priority.ignore \<and> required d \<and> \<not> operational d
      then Status.error
    else if \<exists>d\<in>set deps. priority d \<noteq> Some Priority.ignore \<and>
              ((required d \<and> status d = Status.degraded) \<or> (\<not> required d \<and> \<not> operational d))
      then Status.degraded
    else defaultStatus)"
proof (induction deps arbitrary: defaultStatus)
  case Nil
  show ?case by simp
next
  case (Cons d deps)
  show ?case
    unfolding aggregateStatus.simps(2) Cons.IH
    using required_not_ignore [of d] by simp blast
qed

theorem aggregateStatus_rule_witness:
  "aggregateStatus
     [Operational (Some Priority.ignore) Status.error None [],
      Operational (Some Priority.required) Status.degraded None [],
      Operational None Status.notpresent None []] Status.ok = Status.degraded
   \<and> aggregateStatus
     [Operational (Some Priority.optional) Status.error None [],
      Operational (Some Priority.required) Status.ok (Some Status.notapplied) [],
      Operational (Some Priority.required) Status.ok None []] Status.ok = Status.error
   \<and> aggregateStatus
     [Operational (Some Priority.required) Status.ok None [],
      Operational None Status.degraded None []] Status.notapplied = Status.notapplied"
  using aggregateStatus_rule
    [of "[Operational (Some Priority.ignore) Status.error None [],
          Operational (Some Priority.required) Status.degraded None [],
          Operational None Status.notpresent None []]" Status.ok]
    aggregateStatus_rule
    [of "[Operational (Some Priority.optional) Status.error None [],
          Operational (Some Priority.required) Status.ok (Some Status.notapplied) [],
          Operational (Some Priority.required) Status.ok None []]" Status.ok]
    aggregateStatus_rule
    [of "[Operational (Some Priority.required) Status.ok None [],
          Operational None Status.degraded None []]" Status.notapplied]
  by (simp add: required_def operational.simps)

subsection \<open>Manual override and the status property\<close>

text \<open>
  Claim C3, as stated: whenever the manual override is set to a status other than \<open>error\<close>,
  the status is the aggregation over the dependencies, started from the override. It fails
  for the override \<open>notapplied\<close> on an entity with a required dependency in \<open>error\<close>: the
  aggregation gives \<open>error\<close>, the status property returns \<open>notapplied\<close>.
\<close>

theorem status_override_counterexample:
  "manualOverideStatus
     (Operational None Status.ok (Some Status.notapplied)
        [Operational (Some Priority.required) Status.error None []]) = Some Status.notapplied
   \<and> Status.notapplied \<noteq> Status.error
   \<and> status
     (Operational None Status.ok (Some Status.notapplied)
        [Operational (Some Priority.required) Status.error None []]) = Status.notapplied
   \<and> aggregateStatus
     (getOperationalDependencies
       (Operational None Status.ok (Some Status.notapplied)
          [Operational (Some Priority.required) Status.error None []])) Status.notapplied
     = Status.error"
  by (simp add: required_def operational.simps)

text \<open>
  Claim C3, amended. The guard of \<^verbatim>\<open>status\<close> is \<^verbatim>\<open>status >= Status.error\<close>: an
  override (or, without one, a computed status) of \<open>error\<close>, \<open>notapplied\<close> or \<open>notpresent\<close> is
  returned as it is and the dependencies are not consulted; an override of \<open>ok\<close> or
  \<open>degraded\<close> replaces the computed status as the default of the aggregation over the
  dependencies.
\<close>

theorem status_override_amended:
  "(manualOverideStatus x = Some m \<longrightarrow>
      status x = (if m = Status.error \<or> m = Status.notapplied \<or> m = Status.notpresent then m
                  else aggregateStatus (getOperationalDependencies x) m))
   \<and> (manualOverideStatus x = None \<longrightarrow>
      status x = (if computedStatus x = Status.error \<or> computedStatus x = Status.notapplied
                     \<or> computedStatus x = Status.notpresent then computedStatus x
                  else aggregateStatus (getOperationalDependencies x) (computedStatus x)))"
proof (cases x)
  case (Operational p c mo deps)
  have ge: "(3 \<le> Status_value s) =
      (s = Status.error \<or> s = Status.notapplied \<or> s = Status.notpresent)" for s
    by (cases s) simp_all
  show ?thesis
    unfolding Operational by (simp add: ge Let_def)
qed

theorem status_override_amended_witness:
  "status (Operational None Status.ok (Some Status.degraded)
      [Operational (Some Priority.required) Status.error None []]) = Status.error
   \<and> status (Operational None Status.ok (Some Status.notpresent)
      [Operational (Some Priority.required) Status.error None []]) = Status.notpresent
   \<and> status (Operational None Status.ok None
      [Operational (Some Priority.optional) Status.error None []]) = Status.degraded"
  using status_override_amended
    [of "Operational None Status.ok (Some Status.degraded)
      [Operational (Some Priority.required) Status.error None []]" Status.degraded]
    status_override_amended
    [of "Operational None Status.ok (Some Status.notpresent)
      [Operational (Some Priority.required) Status.error None []]" Status.notpresent]
    status_override_amended
    [of "Operational None Status.ok None
      [Operational (Some Priority.optional) Status.error None []]" Status.ok]
  by (simp add: required_def operational.simps)

subsection \<open>Constructing and finding resources\<close>

text \<open>
  Claim C9. For every parent that is not \<^verbatim>\<open>None\<close>, \<^verbatim>\<open>Resource(name, attributes,
  parent=parent)\<close> raises \<^verbatim>\<open>AttributeError\<close>: \<^verbatim>\<open>self.resources\<close> is read before it is
  assigned. So \<^verbatim>\<open>Manifest.createResource\<close>, which passes \<^verbatim>\<open>parent or
  self.getRootResource()\<close>, raises on every input, and the store, with the children of every
  resource in it, is what it was before the call.
\<close>

theorem createResource_never_returns:
  "Resource_init w n a cs (Some parent) children = Inl AttributeError
   \<and> Resource_new w n a cs (Some parent) children = (Inl AttributeError, w)
   \<and> isl (fst (createResource m w n' a p ss))
   \<and> snd (createResource m w n' a p ss) = w"
proof -
  have init: "Resource_init w n a cs (Some q) ch = Inl AttributeError" for n a cs q ch
    by (simp add: Resource_init_def)
  have new: "Resource_new w n a cs (Some q) ch = (Inl AttributeError, w)" for n a cs q ch
    by (simp add: Resource_new_def init)
  have "isl (fst (createResource m w n' a p ss)) \<and> snd (createResource m w n' a p ss) = w"
    by (auto simp: createResource_def new split: option.splits sum.splits)
  with init new show ?thesis by simp
qed

text \<open>
  Claim C10. \<^verbatim>\<open>findResource\<close> looks at the resource and at its direct children only: it
  returns the resource when its own name is the one asked for, raises \<^verbatim>\<open>NameError\<close> when
  a direct child has that name, and returns \<^verbatim>\<open>None\<close> otherwise, whatever lies deeper in
  the tree.
\<close>

theorem findResource_depth_one:
  "findResource w self resourceid =
     (if rname (resourceOf w self) = resourceid then Inr (Some self)
      else if \<exists>r\<in>set (resources (resourceOf w self)). rname (resourceOf w r) = resourceid
        then Inl NameError
      else Inr None)"
proof -
  have "findResource_children w rs resourceid =
      (if \<exists>r\<in>set rs. rname (resourceOf w r) = resourceid then Inl NameError else Inr None)"
    for rs
    by (induction rs) simp_all
  then show ?thesis by (simp add: findResource_def)
qed

theorem findResource_depth_one_witness:
  "findResource family 0 ''root'' = Inr (Some 0)
   \<and> findResource family 0 ''child'' = Inl NameError
   \<and> 2 \<in> set (resources (resourceOf family 1)) \<and> 1 \<in> set (resources (resourceOf family 0))
   \<and> rname (resourceOf family 2) = ''grandchild''
   \<and> findResource family 0 ''grandchild'' = Inr None"
  using findResource_depth_one [of family 0 "''root''"]
    findResource_depth_one [of family 0 "''child''"]
    findResource_depth_one [of family 0 "''grandchild''"]
  by (simp add: family_def)

subsection \<open>Selecting and filtering configurations\<close>

lemma includeTask_same_major:
  assumes "\<not> all self" and "\<not> upgrade self"
    and "configurationSpec lastChange \<noteq> config"
    and "intent config \<noteq> Enum Action.revert"
    and "majorVersion (configurationSpec lastChange) = majorVersion config"
    and "\<not> (Configuration_status lastChange = Status.notpresent
            \<and> intent (configurationSpec lastChange) \<noteq> intent config \<and> add self)"
  shows "includeTask self (Some config) (Some lastChange) = checkForRepair self lastChange"
  using assms by (auto simp: Let_def)

lemma checkForRepair_result:
  "checkForRepair self lastChange = Inr (Some spec) \<Longrightarrow> spec = configurationSpec lastChange"
  by (simp add: checkForRepair_def Let_def split: if_splits)

text \<open>
  Claim C2 holds that a changed specification with the same major version is selected when
  \<^verbatim>\<open>update\<close> is set and \<^verbatim>\<open>upgrade\<close> is not. The test in \<^verbatim>\<open>includeTask\<close> is
  \<^verbatim>\<open>spec.majorVersion != config.majorVersion\<close>, under the comment "apply the new
  configuration unless it will trigger a major version change": with the default options, a
  wanted specification that differs from the one last applied (status \<open>ok\<close>) in the minor
  version only is not selected, and \<^verbatim>\<open>includeTask\<close> returns \<^verbatim>\<open>None\<close>.
\<close>

theorem includeTask_minor_change_not_selected:
  "configurationSpec web_lastChange \<noteq> web_spec
   \<and> \<not> upgrade JobOptions_defaults \<and> update JobOptions_defaults
   \<and> intent web_spec \<noteq> Enum Action.revert
   \<and> majorVersion web_spec = majorVersion (configurationSpec web_lastChange)
   \<and> includeTask JobOptions_defaults (Some web_spec) (Some web_lastChange) = Inr None"
  by (simp add: web_spec_def web_lastChange_def JobOptions_defaults_def checkForRepair_def
      hasParametersChanged_def resolveParameters_def Configuration_status_def
      Configuration_Operational_def Configuration_priority_def shouldRun_def
      Configuration_getOperationalDependencies_def getPostConditions_def truthy_def)

lemma filterConfig_readOnly_Enum:
  "readOnly self \<Longrightarrow> intent config = Enum a \<Longrightarrow> filterConfig self config = Inr None"
  by (simp add: filterConfig_def)

text \<open>
  Claim C7 holds that under \<^verbatim>\<open>readOnly\<close> a configuration whose intent is discover is
  retained. \<^verbatim>\<open>filterConfig\<close> compares the intent, a member of \<^verbatim>\<open>Action\<close>, with the
  string \<^verbatim>\<open>'discover'\<close>; the two are never equal, so with \<^verbatim>\<open>readOnly\<close> set the
  configuration of intent \<^verbatim>\<open>Action.discover\<close> is dropped like every other.
\<close>

theorem filterConfig_readOnly_drops_discover:
  "readOnly (JobOptions_defaults\<lparr>readOnly := True\<rparr>)
   \<and> intent (web_spec\<lparr>intent := Enum Action.discover\<rparr>) = Enum Action.discover
   \<and> filterConfig (JobOptions_defaults\<lparr>readOnly := True\<rparr>)
        (web_spec\<lparr>intent := Enum Action.discover\<rparr>) = Inr None
   \<and> filterConfig JobOptions_defaults (web_spec\<lparr>intent := Enum Action.discover\<rparr>)
        = Inr (Some (web_spec\<lparr>intent := Enum Action.discover\<rparr>))"
  by (simp add: filterConfig_def JobOptions_defaults_def web_spec_def truthy_def)

subsection \<open>Quoted keys and items in include expansion\<close>

lemma expandDict_items_quoted:
  "expandDict_items g e p len ((CHR ''q'' # CHR ''+'' # k, v) # rest) cp ts inc =
     expandDict_items g e p len rest (AList.update k v cp) ts inc"
  by (simp add: startswith_def)

lemma expandList_item_quoted:
  "expandList_item g e p i (Str (CHR ''q'' # CHR ''+'' # s)) inc =
     returns ([Str (CHR ''+'' # s)], inc)"
  by (simp add: expandList_item_def startswith_def)

text \<open>
  Claim C8 holds that a key or a list item that begins with \<^verbatim>\<open>q+\<close> is emitted with only
  the \<^verbatim>\<open>q\<close> removed. \<^verbatim>\<open>expandList\<close> does so (\<^verbatim>\<open>item[1:]\<close>); \<^verbatim>\<open>expandDict\<close>
  stores the value under \<^verbatim>\<open>key[2:]\<close>, without the \<^verbatim>\<open>+\<close>: the document
  \<^verbatim>\<open>{'q+a': 1}\<close> expands to \<^verbatim>\<open>{'a': 1}\<close>, the document \<^verbatim>\<open>{'b': ['q+c']}\<close> to
  \<^verbatim>\<open>{'b': ['+c']}\<close>.
\<close>

theorem expandDict_quoted_key_loses_plus:
  "expandDoc 1 (Dict [(''q+a'', Num 1)]) = Some (Inr (Dict [(''a'', Num 1)], []))
   \<and> expandDoc 1 (Dict [(''b'', Seq [Str ''q+c''])])
       = Some (Inr (Dict [(''b'', Seq [Str ''+c''])], []))"
  by (simp add: expandDoc_def expandDict_def expandDict_body_def startswith_def and_then_def
      returns_def merge_all_def expandList_def expandList_item_def)

subsection \<open>Reverting the changes of a task that was not applied\<close>

lemma setConfiguration_frame:
  "attributes (resourceOf (setConfiguration w r c) x) = attributes (resourceOf w x)"
  "taskOf (setConfiguration w r c) = taskOf w"
  "configurationOf (setConfiguration w r c) = configurationOf w"
  by (simp_all add: setConfiguration_def Let_def)

lemma setConfiguration_kept:
  "\<not> withdrawn w c \<Longrightarrow>
     map_of (configurations (resourceOf (setConfiguration w r c) r))
       (Configuration_name (configurationOf w c)) = Some c"
  by (simp add: setConfiguration_def Let_def update_conv')

lemma revertChanges_loop_frame:
  "taskOf (revertChanges_loop w xs) = taskOf w"
  "configurations (resourceOf (revertChanges_loop w xs) r) = configurations (resourceOf w r)"
  "excludedConfigurations (resourceOf (revertChanges_loop w xs) r)
     = excludedConfigurations (resourceOf w r)"
  by (induction xs arbitrary: w) auto

lemma attributes_revertChanges_loop:
  "attributes (resourceOf (revertChanges_loop w xs) r) =
     (case map_of (rev xs) r of Some saved \<Rightarrow> saved | None \<Rightarrow> attributes (resourceOf w r))"
proof (induction xs arbitrary: w)
  case Nil
  show ?case by simp
next
  case (Cons x xs)
  obtain k a where x: "x = (k, a)" by (cases x)
  show ?case
    unfolding x by (simp add: Cons.IH map_add_def split: option.splits)
qed

lemma revertChanges_effect:
  "attributes (resourceOf (revertChanges w self) r) =
     (case saved_attributes (taskOf w self) r of
        Some saved \<Rightarrow> saved | None \<Rightarrow> attributes (resourceOf w r))"
  "updateResources (taskOf (revertChanges w self) self) = []"
  "currentConfiguration (taskOf (revertChanges w self) self) = currentConfiguration (taskOf w self)"
  "configurations (resourceOf (revertChanges w self) r) = configurations (resourceOf w r)"
  "excludedConfigurations (resourceOf (revertChanges w self) r)
     = excludedConfigurations (resourceOf w r)"
  by (simp_all add: revertChanges_def Let_def attributes_revertChanges_loop saved_attributes_def
      revertChanges_loop_frame)

lemma set_computedStatus_frame:
  "resourceOf (set_computedStatus w c s) = resourceOf w"
  "taskOf (set_computedStatus w c s) = taskOf w"
  "Configuration_name (configurationOf (set_computedStatus w c s) x)
     = Configuration_name (configurationOf w x)"
  "resource (configurationOf (set_computedStatus w c s) x) = resource (configurationOf w x)"
  by (simp_all add: set_computedStatus_def Configuration_name_def)

lemma reinstate_effect:
  assumes "reinstate w self res old = (None, w')"
  shows "attributes (resourceOf w' r) = attributes (resourceOf w r)"
    and "updateResources (taskOf w' self) = updateResources (taskOf w self)"
    and "currentConfiguration (taskOf w' self) = old"
    and "map_of (excludedConfigurations (resourceOf w' res))
           (Configuration_name (configurationOf w (newConfiguration (taskOf w self))))
         = Some (newConfiguration (taskOf w self))"
    and "\<not> withdrawn w old \<Longrightarrow>
           map_of (configurations (resourceOf w' res)) (Configuration_name (configurationOf w old))
           = Some old"
proof -
  let ?w1 = "w\<lparr>taskOf := (taskOf w)(self := (taskOf w self)\<lparr>currentConfiguration := old\<rparr>)\<rparr>"
  have wd: "withdrawn ?w1 old = withdrawn w old" by (simp add: withdrawn_def)
  from assms show "attributes (resourceOf w' r) = attributes (resourceOf w r)"
    by (auto simp: reinstate_def Let_def setConfiguration_frame split: if_splits)
  from assms show "updateResources (taskOf w' self) = updateResources (taskOf w self)"
    by (auto simp: reinstate_def Let_def setConfiguration_frame split: if_splits)
  from assms show "currentConfiguration (taskOf w' self) = old"
    by (auto simp: reinstate_def Let_def setConfiguration_frame split: if_splits)
  from assms show "map_of (excludedConfigurations (resourceOf w' res))
           (Configuration_name (configurationOf w (newConfiguration (taskOf w self))))
         = Some (newConfiguration (taskOf w self))"
    by (auto simp: reinstate_def Let_def setConfiguration_frame update_conv' split: if_splits)
  assume "\<not> withdrawn w old"
  with wd have "map_of (configurations (resourceOf (setConfiguration ?w1 res old) res))
       (Configuration_name (configurationOf ?w1 old)) = Some old"
    using setConfiguration_kept [of ?w1 old res] by simp
  with assms show "map_of (configurations (resourceOf w' res))
      (Configuration_name (configurationOf w old)) = Some old"
    by (auto simp: reinstate_def Let_def split: if_splits)
qed

lemmas example_defs = deployment_def parent_updates_def subtask_updates_def subtask_finished_def
  parent_finished_def updateResource_def finished_def revertChanges_def reinstate_def
  setConfiguration_def set_computedStatus_def withdrawn_def Configuration_name_def
  Configuration_intent_def Configuration_status_def Configuration_Operational_def
  Configuration_priority_def shouldRun_def Configuration_getOperationalDependencies_def
  getPostConditions_def web_spec_def web_lastChange_def

text \<open>
  Claim C4, as stated, has the attribute changes of sub-tasks stay in place when the parent
  task finishes with \<open>notapplied\<close>. In the store \<open>deployment\<close> the parent task saves the
  attributes of \<open>root\<close> when it writes \<open>a\<close>; the sub-task then writes \<open>b\<close> and finishes
  with \<open>ok\<close>; when the parent finishes with \<open>notapplied\<close> the saved attributes are put back and
  \<open>b\<close> is gone.
\<close>

theorem subtask_attributes_counterexample:
  "map_of (attributes (resourceOf subtask_finished 0)) ''b'' = Some ''2''
   \<and> fst (finished subtask_finished 0 Status.notapplied) = Inr 1
   \<and> map_of (attributes (resourceOf parent_finished 0)) ''b'' = None"
  by (simp add: example_defs Let_def)

text \<open>
  Claim C4, amended. When \<^verbatim>\<open>finished\<close> is called with \<open>notapplied\<close> and returns, every
  resource recorded in the task's \<^verbatim>\<open>updateResources\<close> has the attributes that were saved
  when the task first updated it, so that whatever was written to it afterwards, by the task
  or by its sub-tasks, is discarded; every other resource keeps its attributes, the writes of
  sub-tasks included; \<^verbatim>\<open>updateResources\<close> is empty. If there is a previous configuration
  it is the current configuration of the task again, the new configuration is filed under
  \<^verbatim>\<open>excludedConfigurations\<close> of the resource, and the previous one is back under
  \<^verbatim>\<open>configurations\<close> unless \<^verbatim>\<open>setConfiguration\<close> finds it withdrawn (\<open>notpresent\<close>
  with intent \<open>revert\<close>).
\<close>

theorem finished_notapplied_reverts:
  assumes "finished w self Status.notapplied = (Inr c, w')"
  shows "(\<forall>r. attributes (resourceOf w' r) =
            (case saved_attributes (taskOf w self) r of
               Some saved \<Rightarrow> saved | None \<Rightarrow> attributes (resourceOf w r)))
     \<and> updateResources (taskOf w' self) = []
     \<and> (\<forall>old. oldConfiguration (taskOf w self) = Some old \<longrightarrow>
          currentConfiguration (taskOf w' self) = old
          \<and> map_of (excludedConfigurations
                (resourceOf w' (resource (configurationOf w (currentConfiguration (taskOf w self))))))
              (Configuration_name (configurationOf w (newConfiguration (taskOf w self))))
            = Some (newConfiguration (taskOf w self))
          \<and> (\<not> withdrawn (set_computedStatus w (currentConfiguration (taskOf w self))
                    Status.notapplied) old \<longrightarrow>
               map_of (configurations
                 (resourceOf w' (resource (configurationOf w (currentConfiguration (taskOf w self))))))
                 (Configuration_name (configurationOf w old)) = Some old))"
proof (cases "oldConfiguration (taskOf w self)")
  case None
  with assms have w': "w' = revertChanges
      (set_computedStatus w (currentConfiguration (taskOf w self)) Status.notapplied) self"
    by (simp add: finished_def Let_def set_computedStatus_frame)
  show ?thesis
    unfolding w' using None
    by (simp add: revertChanges_effect set_computedStatus_frame cong: option.case_cong)
next
  case (Some old)
  let ?w1 = "set_computedStatus w (currentConfiguration (taskOf w self)) Status.notapplied"
  let ?res = "resource (configurationOf w (currentConfiguration (taskOf w self)))"
  from assms Some obtain w2 where re: "reinstate ?w1 self ?res old = (None, w2)"
    and w': "w' = revertChanges w2 self"
    by (auto simp: finished_def Let_def set_computedStatus_frame split: prod.splits option.splits)
  note eff = reinstate_effect [OF re]
  have saved: "saved_attributes (taskOf w2 self) = saved_attributes (taskOf w self)"
    by (simp add: saved_attributes_def fun_eq_iff eff(2) set_computedStatus_frame)
  show ?thesis
    unfolding w' using Some eff(1,3,4,5)
    by (simp add: revertChanges_effect set_computedStatus_frame saved cong: option.case_cong)
qed

theorem finished_notapplied_reverts_witness:
  "finished subtask_finished 0 Status.notapplied = (Inr 1, parent_finished)
   \<and> saved_attributes (taskOf subtask_finished 0) 0 = Some [(''x'', ''0'')]
   \<and> attributes (resourceOf subtask_finished 0) = [(''x'', ''0''), (''a'', ''1''), (''b'', ''2'')]
   \<and> attributes (resourceOf parent_finished 0) = [(''x'', ''0'')]
   \<and> updateResources (taskOf parent_finished 0) = []
   \<and> oldConfiguration (taskOf subtask_finished 0) = Some 0
   \<and> currentConfiguration (taskOf parent_finished 0) = 0
   \<and> map_of (configurations (resourceOf parent_finished 0)) ''web'' = Some 0
   \<and> map_of (excludedConfigurations (resourceOf parent_finished 0)) ''web'' = Some 1"
proof -
  have returned: "finished subtask_finished 0 Status.notapplied = (Inr 1, parent_finished)"
    by (simp add: prod_eq_iff example_defs Let_def)
  from finished_notapplied_reverts [OF returned] returned show ?thesis
    by (simp add: example_defs saved_attributes_def Let_def)
qed

subsection \<open>An unexpected value from a configurator\<close>

lemma finished_error:
  "finished w task Status.error =
     (Inr (newConfiguration (taskOf w task)),
      set_computedStatus w (currentConfiguration (taskOf w task)) Status.error)"
  by (simp add: finished_def Let_def set_computedStatus_def)

lemma status_computed_error:
  "manualOverideStatus' c = None \<Longrightarrow> computedStatus' c = Status.error
    \<Longrightarrow> Configuration_status c = Status.error"
  by (simp add: Configuration_status_def Configuration_Operational_def)

lemma runTask_enters_loop:
  "canRunTask c w task = (True, w1) \<Longrightarrow> start c w1 task = (g, w2) \<Longrightarrow>
     runTask manifest classes (Suc n) task c w = runTask_loop manifest classes n task g NoChange w2"
  by (simp add: runTask_def runTask_loop_def runTask_body_def)

text \<open>
  Claim C6, as stated, has the task error recorded and the task finished with \<open>error\<close> for
  every unexpected value. The configurator \<open>failing_cleanup_Configurator\<close> yields
  \<^verbatim>\<open>None\<close> and raises \<^verbatim>\<open>ValueError\<close> when its generator is closed: \<^verbatim>\<open>runTask\<close>
  raises \<^verbatim>\<open>ValueError\<close>, the task has no error, and the configuration of the task is
  \<open>notapplied\<close> as it was.
\<close>

theorem runTask_close_raises_counterexample:
  "send yield_None_failing_cleanup NoChange deployment
     = (Yield YieldOther failing_cleanup, deployment)
   \<and> runTask_loop site_manifest any_class 1 1 yield_None_failing_cleanup NoChange deployment
       = raise_run ValueError deployment
   \<and> errors (taskOf deployment 1) = []
   \<and> Configuration_status (configurationOf deployment 2) = Status.notapplied
   \<and> (\<exists>w'. runTask site_manifest any_class 2 1 failing_cleanup_Configurator deployment
              = raise_run ValueError w'
          \<and> errors (taskOf w' 1) = []
          \<and> Configuration_status (configurationOf w' 2) = Status.notapplied)"
  by (simp add: runTask_loop_def runTask_round_def yield_None_failing_cleanup_def
      failing_cleanup_def example_defs Configuration_status_def Configuration_Operational_def
      runTask_def runTask_body_def canRunTask_def start_def failing_cleanup_Configurator_def
      base_Configurator_def validateParameters_def ConfigurationSpec_canRun_def
      refreshParameters_def setConfiguration_def Let_def raise_run_def
      JobOptions_defaults_def numeral_2_eq_2)

text \<open>
  Claim C6, amended. In any round of the loop of \<^verbatim>\<open>runTask\<close> in
  \<^verbatim>\<open>giterop/runtime.py\<close>, when the generator yields a value that is not a task, a job or
  a status, \<^verbatim>\<open>runTask\<close> calls \<^verbatim>\<open>generator.close()\<close> and does not resume the
  generator. If \<^verbatim>\<open>close()\<close> returns normally, \<^verbatim>\<open>runTask\<close> returns in that round: the
  error \<open>unexpected result from configurator\<close> is appended to the errors of the task, and the
  task is finished with \<open>error\<close>, which becomes the computed status of its current
  configuration (and its status, no manual override being set). If \<^verbatim>\<open>close()\<close> raises,
  \<^verbatim>\<open>runTask\<close> raises the same exception on the store that \<^verbatim>\<open>close()\<close> left: no error
  is recorded and the task is not finished.
\<close>

theorem runTask_unexpected_result:
  assumes "send generator' change' w = (Yield YieldOther suspended, w1)"
  shows "(\<forall>w2. close suspended w1 = (None, w2) \<longrightarrow>
      (\<exists>w'. runTask_loop manifest classes (Suc n) task generator' change' w =
             return_run (ReturnedConfiguration (newConfiguration (taskOf w2 task))) w'
        \<and> w' = snd (finished
                  (GitErOpTaskError w2 task ''unexpected result from configurator'')
                  task Status.error)
        \<and> errors (taskOf w' task) =
            errors (taskOf w2 task) @ [''unexpected result from configurator'']
        \<and> computedStatus' (configurationOf w' (currentConfiguration (taskOf w2 task)))
            = Status.error
        \<and> (manualOverideStatus'
             (configurationOf w2 (currentConfiguration (taskOf w2 task))) = None \<longrightarrow>
           Configuration_status (configurationOf w' (currentConfiguration (taskOf w2 task)))
            = Status.error)))
   \<and> (\<forall>e w2. close suspended w1 = (Some e, w2) \<longrightarrow>
        runTask_loop manifest classes (Suc n) task generator' change' w = raise_run e w2)"
  using assms
  by (simp add: runTask_loop_def runTask_round_def return_finished_def finished_error
      return_run_def GitErOpTaskError_def set_computedStatus_def status_computed_error)

theorem runTask_unexpected_result_witness:
  "send yield_None NoChange deployment = (Yield YieldOther exhausted, deployment)
   \<and> close exhausted deployment = (None, deployment)
   \<and> runTask_loop site_manifest any_class 1 1 yield_None NoChange deployment =
       return_run (ReturnedConfiguration 2)
         (snd (finished (GitErOpTaskError deployment 1 ''unexpected result from configurator'')
                1 Status.error))
   \<and> errors (taskOf
         (snd (finished (GitErOpTaskError deployment 1 ''unexpected result from configurator'')
                1 Status.error)) 1) = [''unexpected result from configurator'']
   \<and> Configuration_status (configurationOf
         (snd (finished (GitErOpTaskError deployment 1 ''unexpected result from configurator'')
                1 Status.error)) 2) = Status.error
   \<and> send yield_None_failing_cleanup NoChange subtask_updates
       = (Yield YieldOther failing_cleanup, subtask_updates)
   \<and> close failing_cleanup subtask_updates = (Some ValueError, subtask_updates)
   \<and> runTask_loop site_manifest any_class 1 1 yield_None_failing_cleanup NoChange subtask_updates
       = raise_run ValueError subtask_updates"
proof -
  have yields: "send yield_None NoChange deployment = (Yield YieldOther exhausted, deployment)"
    by (simp add: yield_None_def)
  have returns: "close exhausted deployment = (None, deployment)"
    by (simp add: exhausted_def)
  have yields': "send yield_None_failing_cleanup NoChange subtask_updates
      = (Yield YieldOther failing_cleanup, subtask_updates)"
    by (simp add: yield_None_failing_cleanup_def)
  have raises: "close failing_cleanup subtask_updates = (Some ValueError, subtask_updates)"
    by (simp add: failing_cleanup_def)
  from runTask_unexpected_result [OF yields, of site_manifest any_class 0 1]
    runTask_unexpected_result [OF yields', of site_manifest any_class 0 1]
    yields returns yields' raises
  show ?thesis
    by (simp add: example_defs GitErOpTaskError_def)
qed

subsection \<open>Candidates that are already handled\<close>

lemmas site_defs = site_def site_manifest_def any_class_def site_job_def first_candidate_def
  wanted_resume_def orphans_resume_def after_root_def Task_new_def Task_findResource_def
  findResource_def Configuration_new_def Configuration_init_def filterConfig_def truthy_def
  JobOptions_defaults_def isConfigAlreadyHandled_def addWork_def

text \<open>
  In \<^verbatim>\<open>giterop/runtime.py\<close>, once a pair of a target and a configuration name is a key
  of \<^verbatim>\<open>workDone\<close> the planner creates no task for it: when \<^verbatim>\<open>getCandidateTasks\<close>
  reaches a wanted specification with that pair, or an orphaned configuration whose
  specification has it, it goes on to the next candidate and the store is as before.
  \<^verbatim>\<open>Job.run\<close> calls \<^verbatim>\<open>addWork\<close> on every task the planner yields, before it runs the
  task or resumes the planner, and \<^verbatim>\<open>addWork\<close> records the task under the resource name
  and the name of its current configuration.
\<close>

lemma giterop_handled_candidate_skipped:
  "(isConfigAlreadyHandled w config \<longrightarrow>
      getCandidateTasks_next manifest classes self (InWanted r existing (config # rest)) w
      = getCandidateTasks_next manifest classes self (InWanted r existing rest) w)
   \<and> (includeTask (options (jobOf w self)) None (Some (configurationOf w change'))
          = Inr (Some config)
        \<and> isConfigAlreadyHandled w config \<longrightarrow>
      getCandidateTasks_next manifest classes self (InOrphans r (change' # changes)) w
      = getCandidateTasks_next manifest classes self (InOrphans r changes) w)
   \<and> (getCandidateTasks_next manifest classes self suspended w
          = (Inr (Some (task, c)), suspended', w1) \<longrightarrow>
      candidates_round fns manifest classes self suspended w
      = run_candidate fns self suspended' task c (addWork w1 task))
   \<and> (target spec
          = rname (resourceOf w (resource (configurationOf w (currentConfiguration (taskOf w task)))))
        \<and> name spec = Configuration_name (configurationOf w (currentConfiguration (taskOf w task)))
      \<longrightarrow> isConfigAlreadyHandled (addWork w task) spec)"
  by (simp add: wanted_resume_def orphans_resume_def isConfigAlreadyHandled_def addWork_def
      Let_def update_conv' candidates_round_def)

text \<open>
  The job \<open>site_job\<close> wants the specification \<open>web\<close> of \<open>root\<close> twice. Its planner yields
  a task for the first, which \<^verbatim>\<open>Job.run\<close> records; resumed, the planner skips the second
  and is exhausted, and one task has been created. With the option \<^verbatim>\<open>all\<close> the orphaned
  configuration \<open>web\<close>, already recorded, is skipped as well.
\<close>

lemma giterop_handled_candidate_skipped_example:
  "fst (getCandidateTasks_next site_manifest any_class 0 NotStarted site)
     = Inr (Some (0, base_Configurator))
   \<and> candidates_round (run_steps site_manifest any_class 0) site_manifest any_class 0 NotStarted site
       = run_candidate (run_steps site_manifest any_class 0) 0 (InWanted 0 [] [web_spec]) 0
           base_Configurator (addWork first_candidate 0)
   \<and> isConfigAlreadyHandled (addWork first_candidate 0) web_spec
   \<and> getCandidateTasks_next site_manifest any_class 0 (InWanted 0 [] [web_spec])
        (addWork first_candidate 0) = (Inr None, Exhausted, addWork first_candidate 0)
   \<and> nextTask (addWork first_candidate 0) = 1
   \<and> isConfigAlreadyHandled rerun_all (configurationSpec web_lastChange)
   \<and> getCandidateTasks_next site_manifest any_class 0 (InOrphans 0 [0]) rerun_all
       = (Inr None, Exhausted, rerun_all)"
proof -
  have first: "fst (getCandidateTasks_next site_manifest any_class 0 NotStarted site)
      = Inr (Some (0, base_Configurator))"
    by (simp add: site_defs example_defs Let_def)
  have yielded: "getCandidateTasks_next site_manifest any_class 0 NotStarted site
      = (Inr (Some (0, base_Configurator)), InWanted 0 [] [web_spec], first_candidate)"
    by (simp add: prod_eq_iff site_defs example_defs Let_def)
  have recorded: "isConfigAlreadyHandled (addWork first_candidate 0) web_spec"
    by (simp add: site_defs example_defs Let_def)
  have orphan: "includeTask (options (jobOf rerun_all 0)) None
        (Some (configurationOf rerun_all 0)) = Inr (Some (configurationSpec web_lastChange))
      \<and> isConfigAlreadyHandled rerun_all (configurationSpec web_lastChange)"
    by (simp add: site_defs example_defs Let_def rerun_all_def)
  from giterop_handled_candidate_skipped
      [where w = "addWork first_candidate 0" and config = web_spec and manifest = site_manifest
         and classes = any_class and self = 0 and r = 0 and existing = "[]" and rest = "[]"]
    giterop_handled_candidate_skipped
      [where w = rerun_all and config = "configurationSpec web_lastChange"
         and manifest = site_manifest and classes = any_class and self = 0
         and r = 0 and change' = 0 and changes = "[]"]
    giterop_handled_candidate_skipped
      [where manifest = site_manifest and classes = any_class and self = 0
         and suspended = NotStarted and w = site and task = 0 and c = base_Configurator
         and suspended' = "InWanted 0 [] [web_spec]" and ?w1.0 = first_candidate
         and fns = "run_steps site_manifest any_class 0"]
    first yielded recorded orphan
  show ?thesis
    by (simp add: site_defs example_defs Let_def rerun_all_def)
qed

text \<open>
  Claim C5. In \<^verbatim>\<open>unfurl/job.py\<close> the candidate is not skipped. A task for \<open>web\<close> on
  \<open>root\<close> has been recorded in \<^verbatim>\<open>workDone\<close> by \<^verbatim>\<open>addWork\<close>; the plan produces the
  same candidate again, and \<^verbatim>\<open>getCandidateTasks\<close> yields a second task for it:
  \<^verbatim>\<open>isConfigAlreadyHandled\<close> is false whatever \<^verbatim>\<open>workDone\<close> holds, so the branch of
  \<^verbatim>\<open>getCandidateTasks\<close> that skips a specification already handled is never taken.
\<close>

theorem unfurl_handled_candidate_not_skipped:
  "map_of (unfurl_addWork [] unfurl_web ''1'') ''root:web:configure:1'' = Some unfurl_web
   \<and> unfurl_isConfigAlreadyHandled workDone' configSpec = False
   \<and> unfurl_getCandidateTasks_next unfurl_defaults (unfurl_addWork [] unfurl_web ''1'') [unfurl_web]
       = (Some unfurl_web, [])"
  by (simp add: unfurl_addWork_def unfurl_web_def unfurl_defaults_def unfurl_filterConfig_def
      unfurl_isConfigAlreadyHandled_def truthy_def)

end

